theory Spec2Isabelle
  imports Main "HOL-Library.Word" "HOL-Library.Sublist"
begin

unbundle bit_operations_syntax

section \<open>JavaScript values\<close>

text \<open>
  A property of a JSON-backed object is absent (\<open>undefined\<close>), \<open>null\<close>, or holds a
  value. The engine reads most properties through \<open>||\<close> and \<open>!\<close>, which treat
  \<open>undefined\<close>, \<open>null\<close>, the empty string and the number 0 alike (falsy), and some
  through \<open>??\<close> and \<open>!== undefined\<close>, which do not.
\<close>

datatype 'a field = Undefined | Null | Val 'a

definition truthyS :: "string field \<Rightarrow> bool" where
  "truthyS f = (case f of Val s \<Rightarrow> s \<noteq> [] | _ \<Rightarrow> False)"

definition truthyN :: "nat field \<Rightarrow> bool" where
  "truthyN f = (case f of Val n \<Rightarrow> n \<noteq> 0 | _ \<Rightarrow> False)"

definition orS :: "string field \<Rightarrow> string field \<Rightarrow> string field" where
  \<comment> \<open>\<open>a || b\<close> on string-valued properties\<close>
  "orS a b = (if truthyS a then a else b)"

definition orN :: "nat field \<Rightarrow> nat field \<Rightarrow> nat field" where
  "orN a b = (if truthyN a then a else b)"

definition nullish :: "'a field \<Rightarrow> 'a field \<Rightarrow> 'a field" where
  \<comment> \<open>\<open>a ?? b\<close>\<close>
  "nullish a b = (case a of Val v \<Rightarrow> Val v | _ \<Rightarrow> b)"

definition str :: "string field \<Rightarrow> string" where
  \<comment> \<open>the string held by a property already known to be truthy\<close>
  "str f = (case f of Val s \<Rightarrow> s | _ \<Rightarrow> [])"

section \<open>The POSIX \<open>path\<close> module\<close>

text \<open>
  \<open>path.resolve\<close>, \<open>path.join\<close>, \<open>path.normalize\<close> and \<open>path.isAbsolute\<close> of the
  Node.js runtime (POSIX flavour), which the validator and the engine call. They work on
  the text of a path only. The current working directory is a parameter.
\<close>

fun split_on :: "char \<Rightarrow> string \<Rightarrow> string list" where
  "split_on d [] = [[]]"
| "split_on d (c # cs) =
     (if c = d then [] # split_on d cs
      else (case split_on d cs of [] \<Rightarrow> [[c]] | s # ss \<Rightarrow> (c # s) # ss))"

fun normalizeSegs :: "bool \<Rightarrow> string list \<Rightarrow> string list \<Rightarrow> string list" where
  "normalizeSegs allowAboveRoot res [] = res"
| "normalizeSegs allowAboveRoot res (seg # segs) =
     (if seg = [] \<or> seg = ''.'' then normalizeSegs allowAboveRoot res segs
      else if seg = ''..'' then
        (if res \<noteq> [] \<and> last res \<noteq> ''..'' then normalizeSegs allowAboveRoot (butlast res) segs
         else if allowAboveRoot then normalizeSegs allowAboveRoot (res @ [''..'']) segs
         else normalizeSegs allowAboveRoot res segs)
      else normalizeSegs allowAboveRoot (res @ [seg]) segs)"

definition joinSlash :: "string list \<Rightarrow> string" where
  "joinSlash segs = (case segs of [] \<Rightarrow> [] | s # ss \<Rightarrow> s @ concat (map (\<lambda>t. CHR ''/'' # t) ss))"

definition normalizeString :: "string \<Rightarrow> bool \<Rightarrow> string" where
  "normalizeString p allowAboveRoot = joinSlash (normalizeSegs allowAboveRoot [] (split_on CHR ''/'' p))"

definition isAbsolute :: "string \<Rightarrow> bool" where
  "isAbsolute p = (case p of [] \<Rightarrow> False | c # _ \<Rightarrow> c = CHR ''/'')"

definition path_normalize :: "string \<Rightarrow> string" where
  "path_normalize p =
     (if p = [] then ''.''
      else let trailingSeparator = (last p = CHR ''/'');
               n = normalizeString p (\<not> isAbsolute p)
           in if n = [] then (if isAbsolute p then ''/'' else if trailingSeparator then ''./'' else ''.'')
              else let n' = (if trailingSeparator then n @ ''/'' else n)
                   in if isAbsolute p then CHR ''/'' # n' else n')"

definition path_join :: "string list \<Rightarrow> string" where
  "path_join args =
     (case filter (\<lambda>a. a \<noteq> []) args of
        [] \<Rightarrow> ''.''
      | a # as \<Rightarrow> path_normalize (a @ concat (map (\<lambda>t. CHR ''/'' # t) as)))"

fun resolve_loop :: "string list \<Rightarrow> string \<Rightarrow> string \<times> bool" where
  \<comment> \<open>the arguments from the rightmost to the leftmost, the working directory last\<close>
  "resolve_loop [] acc = (acc, False)"
| "resolve_loop (p # ps) acc =
     (if p = [] then resolve_loop ps acc
      else if isAbsolute p then (p @ ''/'' @ acc, True)
      else resolve_loop ps (p @ ''/'' @ acc))"

definition path_resolve :: "string \<Rightarrow> string list \<Rightarrow> string" where
  "path_resolve cwd args =
     (case resolve_loop (rev args @ [cwd]) [] of
        (resolvedPath, resolvedAbsolute) \<Rightarrow>
          let n = normalizeString resolvedPath (\<not> resolvedAbsolute)
          in if resolvedAbsolute then CHR ''/'' # n
             else if n \<noteq> [] then n else ''.'')"

text \<open>
  The directories an absolute path names, from the root down; one path lies within
  another when the other's directories are a prefix of its own.
\<close>

definition pathComponents :: "string \<Rightarrow> string list" where
  "pathComponents p = normalizeSegs False [] (split_on CHR ''/'' p)"

definition isWithin :: "string \<Rightarrow> string \<Rightarrow> bool" where
  "isWithin root p = prefix (pathComponents root) (pathComponents p)"

section \<open>Configuration (\<open>config.js\<close>)\<close>

record config =
  NGINX_ROOT :: string
  PROJECTS_DIR :: string
  LOGS_DIR :: string
  NGINX_SITES_AVAILABLE :: string
  NGINX_SITES_ENABLED :: string
  RELEASES_DIR_NAME :: string
  DEFAULT_BUILD_OUTPUT :: string
  PM2_BIN :: string
  SECRETS_MASTER_KEY :: string
  MAX_QUEUE_SIZE :: "int option"
  MAX_CONCURRENT_DEPLOYS :: "int option"

definition resolvePath :: "string \<Rightarrow> string field \<Rightarrow> string \<Rightarrow> string" where
  \<comment> \<open>\<open>path.resolve(value || fallback)\<close>\<close>
  "resolvePath cwd v fallback = path_resolve cwd [str (orS v (Val fallback))]"

definition isDigit :: "char \<Rightarrow> bool" where
  "isDigit c = (48 \<le> (of_char c :: nat) \<and> (of_char c :: nat) \<le> 57)"

definition isJsSpace :: "char \<Rightarrow> bool" where
  \<comment> \<open>white space and line terminators among the code units below 256\<close>
  "isJsSpace c = (c \<in> set [CHR 0x09, CHR 0x0A, CHR 0x0B, CHR 0x0C, CHR 0x0D, CHR 0x20, CHR 0xA0])"

definition digitsValue :: "string \<Rightarrow> nat" where
  "digitsValue ds = foldl (\<lambda>acc c. 10 * acc + (of_char c - 48)) 0 ds"

definition parseInt10 :: "string \<Rightarrow> int option" where
  \<comment> \<open>\<open>Number.parseInt(s, 10)\<close>; \<open>None\<close> is \<open>NaN\<close>\<close>
  "parseInt10 s =
     (let t = dropWhile isJsSpace s;
          neg = (t \<noteq> [] \<and> hd t = CHR ''-'');
          u = (if t \<noteq> [] \<and> (hd t = CHR ''-'' \<or> hd t = CHR ''+'') then tl t else t);
          ds = takeWhile isDigit u
      in if ds = [] then None
         else Some (if neg then - int (digitsValue ds) else int (digitsValue ds)))"

definition loadConfig :: "string \<Rightarrow> (string \<Rightarrow> string field) \<Rightarrow> config" where
  \<comment> \<open>\<open>Math.max(1, NaN)\<close> is \<open>NaN\<close>\<close>
  "loadConfig cwd penv =
     \<lparr> NGINX_ROOT = resolvePath cwd (penv ''NGINX_ROOT'') ''/var/www'',
       PROJECTS_DIR = resolvePath cwd (penv ''PROJECTS_DIR'') ''/var/deploy/projects'',
       LOGS_DIR = resolvePath cwd (penv ''LOGS_DIR'') ''/var/deploy/logs'',
       NGINX_SITES_AVAILABLE = resolvePath cwd (penv ''NGINX_SITES_AVAILABLE'') ''/etc/nginx/sites-available'',
       NGINX_SITES_ENABLED = resolvePath cwd (penv ''NGINX_SITES_ENABLED'') ''/etc/nginx/sites-enabled'',
       RELEASES_DIR_NAME = str (orS (penv ''RELEASES_DIR_NAME'') (Val ''releases'')),
       DEFAULT_BUILD_OUTPUT = str (orS (penv ''DEFAULT_BUILD_OUTPUT'') (Val ''build'')),
       PM2_BIN = str (orS (penv ''PM2_BIN'') (Val ''pm2'')),
       SECRETS_MASTER_KEY = str (orS (penv ''SECRETS_MASTER_KEY'') (Val [])),
       MAX_QUEUE_SIZE = map_option (max 1) (parseInt10 (str (orS (penv ''MAX_QUEUE_SIZE'') (Val ''50'')))),
       MAX_CONCURRENT_DEPLOYS = parseInt10 (str (orS (penv ''MAX_CONCURRENT_DEPLOYS'') (Val ''1''))) \<rparr>"

section \<open>Path checks of the validator and of the engine\<close>

definition trim :: "string \<Rightarrow> string" where
  "trim s = rev (dropWhile isJsSpace (rev (dropWhile isJsSpace s)))"

definition resolveDeployPath :: "config \<Rightarrow> string \<Rightarrow> string option \<Rightarrow> string field \<Rightarrow> string + string" where
  \<comment> \<open>the validator (\<open>projectValidator.js\<close>); \<open>requestedPath\<close> is \<open>None\<close> when the
     payload holds no string there\<close>
  "resolveDeployPath cfg cwd requestedPath projectId =
     (let fallback = (if truthyS projectId then path_join [NGINX_ROOT cfg, str projectId]
                      else NGINX_ROOT cfg);
          source = (case requestedPath of
                      Some r \<Rightarrow> if length (trim r) > 0 then trim r else fallback
                    | None \<Rightarrow> fallback);
          candidate = (if prefix ''/'' source then source else path_join [NGINX_ROOT cfg, source]);
          resolved = path_resolve cwd [candidate]
      in if \<not> prefix (NGINX_ROOT cfg) resolved
         then Inl ''Deploy path must be inside the server root''
         else Inr resolved)"

definition ensureWithinBase :: "string \<Rightarrow> string \<Rightarrow> string field \<Rightarrow> string \<Rightarrow> string + string" where
  \<comment> \<open>the engine with the owner check; \<open>path.sep\<close> is \<open>/\<close>\<close>
  "ensureWithinBase cwd baseDir candidate fieldName =
     (let normalizedBase = path_resolve cwd [baseDir];
          resolved = path_resolve cwd [normalizedBase, str (orS candidate (Val ''.''))]
      in if resolved = normalizedBase then Inr resolved
         else if \<not> prefix (normalizedBase @ ''/'') resolved
         then Inl (fieldName @ '' must stay within the project repository'')
         else Inr resolved)"

definition ensureDeployPathWithinRoot :: "config \<Rightarrow> string \<Rightarrow> string \<Rightarrow> string + string" where
  "ensureDeployPathWithinRoot cfg cwd deployPath =
     (let root = path_resolve cwd [NGINX_ROOT cfg];
          resolved = path_resolve cwd [deployPath]
      in if resolved = root then Inr resolved
         else if \<not> prefix (root @ ''/'') resolved
         then Inl ''Deploy path must be inside the nginx root''
         else Inr resolved)"

definition absOutput_v1 :: "string \<Rightarrow> string \<Rightarrow> string" where
  \<comment> \<open>the source directory of the release copy in \<open>api/lib/deployEngine.js\<close>\<close>
  "absOutput_v1 repoPath outputDir =
     (if isAbsolute outputDir then outputDir else path_join [repoPath, outputDir])"

text \<open>
  A path segment as \<open>path.resolve\<close> leaves it: not empty, without separator, and
  neither \<open>.\<close> nor \<open>..\<close>.
\<close>

definition cleanSeg :: "string \<Rightarrow> bool" where
  "cleanSeg s = (s \<noteq> [] \<and> CHR ''/'' \<notin> set s \<and> s \<noteq> ''.'' \<and> s \<noteq> ''..'')"

definition slashed :: "string list \<Rightarrow> string" where
  "slashed segs = concat (map (\<lambda>t. CHR ''/'' # t) segs)"

section \<open>The process runner's redactor (\<open>command.js\<close>)\<close>

text \<open>
  Text is a list of code units below 256. \<open>escapeRegExp\<close> puts a backslash in front of every
  character that a regular expression reads as an operator, so the pattern built from a
  key is the key taken literally, then \<open>=\<close>, then the group \<open>([^\s]+)\<close>. The flags are
  \<open>g\<close> (every match, left to right, not overlapping) and \<open>i\<close> (letters compared after
  \<open>Canonicalize\<close>, which maps a code unit to its upper case when that is one code unit).
\<close>

definition regexOperators :: "char list" where
  "regexOperators = [CHR ''.'', CHR ''*'', CHR ''+'', CHR ''?'', CHR ''^'', CHR ''$'', CHR ''{'', CHR ''}'',
                     CHR ''('', CHR '')'', CHR ''|'', CHR ''['', CHR '']'', CHR 0x5C]"

definition escapeRegExp :: "string \<Rightarrow> string" where
  "escapeRegExp s = concat (map (\<lambda>c. if c \<in> set regexOperators then [CHR 0x5C, c] else [c]) s)"

definition canonicalize :: "char \<Rightarrow> char" where
  "canonicalize c =
     (let n = (of_char c :: nat)
      in if (97 \<le> n \<and> n \<le> 122) \<or> (224 \<le> n \<and> n \<le> 254 \<and> n \<noteq> 247) then char_of (n - 32) else c)"

fun matchLiteral :: "string \<Rightarrow> string \<Rightarrow> string option" where
  \<comment> \<open>a pattern of plain and escaped characters, matched at the start of a text; the
     result is the text that follows the match\<close>
  "matchLiteral [] t = Some t"
| "matchLiteral [p] t =
     (case t of [] \<Rightarrow> None
      | c # cs \<Rightarrow> if canonicalize p = canonicalize c then Some cs else None)"
| "matchLiteral (p # q # ps) t =
     (case t of [] \<Rightarrow> None
      | c # cs \<Rightarrow>
          if p = CHR 0x5C then (if canonicalize q = canonicalize c then matchLiteral ps cs else None)
          else if canonicalize p = canonicalize c then matchLiteral (q # ps) cs else None)"

definition matchAt :: "string \<Rightarrow> string \<Rightarrow> (string \<times> string) option" where
  \<comment> \<open>the pattern of a key matched at the start of a text: the captured group and the
     text that follows the match\<close>
  "matchAt key t =
     (case matchLiteral (escapeRegExp key) t of
        None \<Rightarrow> None
      | Some r \<Rightarrow>
          (case r of
             [] \<Rightarrow> None
           | e # r' \<Rightarrow>
               if e = CHR ''='' \<and> takeWhile (\<lambda>c. \<not> isJsSpace c) r' \<noteq> []
               then Some (takeWhile (\<lambda>c. \<not> isJsSpace c) r', dropWhile (\<lambda>c. \<not> isJsSpace c) r')
               else None))"

fun getSubstitution :: "string \<Rightarrow> string \<Rightarrow> string \<Rightarrow> string \<Rightarrow> string \<Rightarrow> string" where
  \<comment> \<open>the replacement text of \<open>String.prototype.replace\<close> for a pattern with one group:
     \<open>$$\<close>, \<open>$&\<close>, \<open>$`\<close>, \<open>$'\<close>, \<open>$1\<close> and \<open>$01\<close> are expanded\<close>
  "getSubstitution matched preceding following group1 [] = []"
| "getSubstitution matched preceding following group1 [x] = [x]"
| "getSubstitution matched preceding following group1 (x # y # zs) =
     (if x \<noteq> CHR ''$'' then x # getSubstitution matched preceding following group1 (y # zs)
      else if y = CHR ''$'' then CHR ''$'' # getSubstitution matched preceding following group1 zs
      else if y = CHR ''&'' then matched @ getSubstitution matched preceding following group1 zs
      else if y = CHR 0x60 then preceding @ getSubstitution matched preceding following group1 zs
      else if y = CHR 0x27 then following @ getSubstitution matched preceding following group1 zs
      else if y = CHR ''1'' then group1 @ getSubstitution matched preceding following group1 zs
      else (case zs of
              z # zs' \<Rightarrow>
                if y = CHR ''0'' \<and> z = CHR ''1'' then group1 @ getSubstitution matched preceding following group1 zs'
                else x # getSubstitution matched preceding following group1 (y # zs)
            | [] \<Rightarrow> x # getSubstitution matched preceding following group1 (y # zs)))"

lemma matchLiteral_length: "matchLiteral p t = Some r \<Longrightarrow> length r \<le> length t"
  by (induction p t rule: matchLiteral.induct) (auto split: list.splits if_splits)

lemma matchAt_length: "matchAt key t = Some (g, r) \<Longrightarrow> length r < length t"
proof -
  assume m: "matchAt key t = Some (g, r)"
  then obtain r0 r' where r0: "matchLiteral (escapeRegExp key) t = Some (CHR ''='' # r')"
    and r: "r = dropWhile (\<lambda>c. \<not> isJsSpace c) r'"
    by (auto simp: matchAt_def split: option.splits list.splits if_splits)
  have "length r \<le> length r'" using r by (simp add: length_dropWhile_le)
  moreover have "length (CHR ''='' # r') \<le> length t" using matchLiteral_length[OF r0] .
  ultimately show ?thesis by simp
qed

function replaceAll :: "string \<Rightarrow> string \<Rightarrow> string \<Rightarrow> string" where
  \<comment> \<open>\<open>text.replace(pattern, key + "=[redacted]")\<close> from the position where \<open>preceding\<close> ends\<close>
  "replaceAll key preceding [] = []"
| "replaceAll key preceding (c # cs) =
     (case matchAt key (c # cs) of
        None \<Rightarrow> c # replaceAll key (preceding @ [c]) cs
      | Some (group1, following) \<Rightarrow>
          (let matched = take (length (c # cs) - length following) (c # cs)
           in getSubstitution matched preceding following group1 (key @ ''=[redacted]'')
              @ replaceAll key (preceding @ matched) following))"
  by pat_completeness auto
termination
  by (relation "measure (\<lambda>(key, preceding, t). length t)") (auto dest: matchAt_length)

definition redactText :: "string \<Rightarrow> string list \<Rightarrow> string" where
  "redactText text keys =
     (if keys = [] then text
      else foldl (\<lambda>result key. if key = [] then result else replaceAll key [] result) text keys)"



section \<open>The secrets codec (\<open>secrets.js\<close>)\<close>

text \<open>
  The plaintext of a secret is Unicode text, a list of code points. The codec calls four
  library functions. UTF-8 and base64 are written out below as \<open>Buffer\<close> implements
  them. SHA-256 and AES-256-GCM are parameters: GCM encrypts by the exclusive or of the
  plaintext with a keystream that the key and the IV determine, and its 128-bit tag is a
  function of the key, the IV and the ciphertext. The random IV is an argument.
\<close>

type_synonym byte = "8 word"
type_synonym ustring = "nat list"

record cryptoLib =
  sha256 :: "byte list \<Rightarrow> byte list"
  gcmKeystream :: "byte list \<Rightarrow> byte list \<Rightarrow> nat \<Rightarrow> byte"
  gcmTag :: "byte list \<Rightarrow> byte list \<Rightarrow> byte list \<Rightarrow> 128 word"

subsection \<open>UTF-8\<close>

definition isScalar :: "nat \<Rightarrow> bool" where
  \<comment> \<open>a Unicode scalar value: a code point that is not a surrogate\<close>
  "isScalar cp = (cp < 0x110000 \<and> \<not> (0xD800 \<le> cp \<and> cp < 0xE000))"

definition utf8enc1 :: "nat \<Rightarrow> nat list" where
  \<comment> \<open>a lone surrogate is written as U+FFFD\<close>
  "utf8enc1 cp =
     (if cp < 0x80 then [cp]
      else if cp < 0x800 then [0xC0 + cp div 64, 0x80 + cp mod 64]
      else if \<not> isScalar cp then [0xEF, 0xBF, 0xBD]
      else if cp < 0x10000 then [0xE0 + cp div 4096, 0x80 + (cp div 64) mod 64, 0x80 + cp mod 64]
      else [0xF0 + cp div 262144, 0x80 + (cp div 4096) mod 64, 0x80 + (cp div 64) mod 64, 0x80 + cp mod 64])"

definition utf8encode :: "ustring \<Rightarrow> byte list" where
  "utf8encode s = map of_nat (concat (map utf8enc1 s))"

definition isCont :: "nat \<Rightarrow> bool" where
  "isCont b = (0x80 \<le> b \<and> b \<le> 0xBF)"

definition secondLo :: "nat \<Rightarrow> nat" where
  "secondLo b0 = (if b0 = 0xE0 then 0xA0 else if b0 = 0xF0 then 0x90 else 0x80)"

definition secondHi :: "nat \<Rightarrow> nat" where
  "secondHi b0 = (if b0 = 0xED then 0x9F else if b0 = 0xF4 then 0x8F else 0xBF)"

definition utf8step :: "nat \<Rightarrow> nat list \<Rightarrow> nat \<times> nat" where
  \<comment> \<open>the code point that starts with byte \<open>b0\<close> and how many of the bytes after it
     belong to it; an ill-formed sequence gives U+FFFD for its longest well-formed start\<close>
  "utf8step b0 bs =
     (if b0 < 0x80 then (b0, 0)
      else if 0xC2 \<le> b0 \<and> b0 \<le> 0xDF then
        (case bs of
           b1 # _ \<Rightarrow> if isCont b1 then ((b0 - 0xC0) * 64 + (b1 - 0x80), 1) else (0xFFFD, 0)
         | [] \<Rightarrow> (0xFFFD, 0))
      else if 0xE0 \<le> b0 \<and> b0 \<le> 0xEF then
        (case bs of
           b1 # b2 # _ \<Rightarrow>
             if secondLo b0 \<le> b1 \<and> b1 \<le> secondHi b0 then
               (if isCont b2 then ((b0 - 0xE0) * 4096 + (b1 - 0x80) * 64 + (b2 - 0x80), 2)
                else (0xFFFD, 1))
             else (0xFFFD, 0)
         | [b1] \<Rightarrow> if secondLo b0 \<le> b1 \<and> b1 \<le> secondHi b0 then (0xFFFD, 1) else (0xFFFD, 0)
         | [] \<Rightarrow> (0xFFFD, 0))
      else if 0xF0 \<le> b0 \<and> b0 \<le> 0xF4 then
        (case bs of
           b1 # b2 # b3 # _ \<Rightarrow>
             if secondLo b0 \<le> b1 \<and> b1 \<le> secondHi b0 then
               (if isCont b2 then
                  (if isCont b3
                   then ((b0 - 0xF0) * 262144 + (b1 - 0x80) * 4096 + (b2 - 0x80) * 64 + (b3 - 0x80), 3)
                   else (0xFFFD, 2))
                else (0xFFFD, 1))
             else (0xFFFD, 0)
         | [b1, b2] \<Rightarrow>
             if secondLo b0 \<le> b1 \<and> b1 \<le> secondHi b0 then (if isCont b2 then (0xFFFD, 2) else (0xFFFD, 1))
             else (0xFFFD, 0)
         | [b1] \<Rightarrow> if secondLo b0 \<le> b1 \<and> b1 \<le> secondHi b0 then (0xFFFD, 1) else (0xFFFD, 0)
         | [] \<Rightarrow> (0xFFFD, 0))
      else (0xFFFD, 0))"

function utf8dec :: "nat list \<Rightarrow> ustring" where
  "utf8dec [] = []"
| "utf8dec (b # bs) = (case utf8step b bs of (cp, n) \<Rightarrow> cp # utf8dec (drop n bs))"
  by pat_completeness auto
termination
  by (relation "measure length") auto

definition utf8decode :: "byte list \<Rightarrow> ustring" where
  "utf8decode bs = utf8dec (map unat bs)"

subsection \<open>Base64\<close>

definition b64char :: "nat \<Rightarrow> char" where
  "b64char n =
     (if n < 26 then char_of (65 + n)
      else if n < 52 then char_of (97 + (n - 26))
      else if n < 62 then char_of (48 + (n - 52))
      else if n = 62 then CHR ''+'' else CHR ''/'')"

definition b64value :: "char \<Rightarrow> nat option" where
  \<comment> \<open>the decoder also reads the URL-safe letters \<open>-\<close> and \<open>_\<close>\<close>
  "b64value c =
     (let n = (of_char c :: nat)
      in if 65 \<le> n \<and> n \<le> 90 then Some (n - 65)
         else if 97 \<le> n \<and> n \<le> 122 then Some (n - 71)
         else if 48 \<le> n \<and> n \<le> 57 then Some (n + 4)
         else if n = 43 \<or> n = 45 then Some 62
         else if n = 47 \<or> n = 95 then Some 63
         else None)"

fun b64enc :: "nat list \<Rightarrow> string" where
  "b64enc [] = []"
| "b64enc [a] = [b64char (a div 4), b64char ((a mod 4) * 16), CHR ''='', CHR ''='']"
| "b64enc [a, b] =
     [b64char (a div 4), b64char ((a mod 4) * 16 + b div 16), b64char ((b mod 16) * 4), CHR ''='']"
| "b64enc (a # b # c # rest) =
     [b64char (a div 4), b64char ((a mod 4) * 16 + b div 16),
      b64char ((b mod 16) * 4 + c div 64), b64char (c mod 64)] @ b64enc rest"

fun b64dec :: "nat list \<Rightarrow> nat list" where
  "b64dec (p # q # r # s # rest) =
     [p * 4 + q div 16, (q mod 16) * 16 + r div 4, (r mod 4) * 64 + s] @ b64dec rest"
| "b64dec [p, q, r] = [p * 4 + q div 16, (q mod 16) * 16 + r div 4]"
| "b64dec [p, q] = [p * 4 + q div 16]"
| "b64dec _ = []"

definition base64encode :: "byte list \<Rightarrow> string" where
  \<comment> \<open>\<open>buffer.toString('base64')\<close>\<close>
  "base64encode bs = b64enc (map unat bs)"

definition base64decode :: "string \<Rightarrow> byte list" where
  \<comment> \<open>\<open>Buffer.from(text, 'base64')\<close>: characters outside the alphabet, padding and white
     space among them, are passed over\<close>
  "base64decode s = map of_nat (b64dec (List.map_filter b64value s))"

subsection \<open>Encryption and decryption\<close>

datatype err = Error (message: string) (statusCode: "nat option")

fun xorStream :: "(nat \<Rightarrow> byte) \<Rightarrow> nat \<Rightarrow> byte list \<Rightarrow> byte list" where
  "xorStream ks i [] = []"
| "xorStream ks i (b # bs) = (b XOR ks i) # xorStream ks (Suc i) bs"

definition tagBytes :: "128 word \<Rightarrow> byte list" where
  "tagBytes t = map (\<lambda>i. ucast (drop_bit (8 * (15 - i)) t)) [0..<16]"

definition deriveKey :: "cryptoLib \<Rightarrow> config \<Rightarrow> byte list" where
  "deriveKey lib cfg = sha256 lib (utf8encode (map of_char (SECRETS_MASTER_KEY cfg)))"

definition encryptSecret :: "cryptoLib \<Rightarrow> config \<Rightarrow> byte list \<Rightarrow> ustring \<Rightarrow> err + string" where
  \<comment> \<open>\<open>iv\<close> is the result of \<open>crypto.randomBytes(12)\<close>\<close>
  "encryptSecret lib cfg iv plaintext =
     (if SECRETS_MASTER_KEY cfg = []
      then Inl (Error ''Secret encryption is not configured (missing SECRETS_MASTER_KEY)'' None)
      else let key = deriveKey lib cfg;
               encrypted = xorStream (gcmKeystream lib key iv) 0 (utf8encode plaintext);
               tag = tagBytes (gcmTag lib key iv encrypted);
               payload = iv @ tag @ encrypted
           in Inr (base64encode payload))"

definition validTagLength :: "nat \<Rightarrow> bool" where
  "validTagLength n = (n = 4 \<or> n = 8 \<or> (12 \<le> n \<and> n \<le> 16))"

definition decryptSecret :: "cryptoLib \<Rightarrow> config \<Rightarrow> string \<Rightarrow> err + ustring" where
  \<comment> \<open>\<open>createDecipheriv\<close> refuses an empty IV, \<open>setAuthTag\<close> a tag of a length that GCM
     does not know, and \<open>final\<close> a tag that is not the start of the computed one\<close>
  "decryptSecret lib cfg ciphertext =
     (if SECRETS_MASTER_KEY cfg = []
      then Inl (Error ''Secret decryption is not configured (missing SECRETS_MASTER_KEY)'' None)
      else let raw = base64decode ciphertext;
               iv = take 12 raw;
               tag = take 16 (drop 12 raw);
               encrypted = drop 28 raw;
               key = deriveKey lib cfg
           in if iv = [] then Inl (Error ''Invalid initialization vector'' None)
              else if \<not> validTagLength (length tag)
              then Inl (Error ''Invalid authentication tag length'' None)
              else if tag \<noteq> take (length tag) (tagBytes (gcmTag lib key iv encrypted))
              then Inl (Error ''Unsupported state or unable to authenticate data'' None)
              else Inr (utf8decode (xorStream (gcmKeystream lib key iv) 0 encrypted)))"

text \<open>
  Stand-ins for SHA-256 and AES-GCM and a configuration with a master secret, for the
  closed instances below. The theorems hold for every \<open>cryptoLib\<close>; nothing depends on
  the stand-ins being secure.
\<close>

definition standInLib :: cryptoLib where
  "standInLib =
     \<lparr> sha256 = (\<lambda>bs. rev bs),
       gcmKeystream = (\<lambda>k iv i. (if k = [] then 0 else hd k) XOR (if iv = [] then 0 else hd iv) XOR of_nat i),
       gcmTag = (\<lambda>k iv c. of_nat (length c)) \<rparr>"

definition keyedConfig :: config where
  "keyedConfig = loadConfig ''/srv/app'' (\<lambda>k. if k = ''SECRETS_MASTER_KEY'' then Val ''k3y'' else Undefined)"

definition iv1 :: "byte list" where
  "iv1 = [1, 2, 3, 4, 5, 6, 7, 8, 9, 10, 11, 12]"

definition iv2 :: "byte list" where
  "iv2 = [2, 2, 3, 4, 5, 6, 7, 8, 9, 10, 11, 12]"

section \<open>The project store (\<open>projectStore.js\<close>)\<close>

text \<open>
  A project is the JSON object of \<open>deploy-config.json\<close>, with the properties the engine
  reads. The values of environment variables are Unicode text; all other text is a string
  of code units below 256.
\<close>

record envEntry =
  entryKey :: "string field"
  isSecret :: bool
  entryValue :: "ustring field"
  encryptedValue :: "string field"

datatype rawEnv =
    EnvAbsent
  | EnvArray "envEntry list"
  | EnvObject "(string \<times> ustring field) list"

record project =
  projId :: "string field"
  repo :: "string field"
  branch :: "string field"
  buildCommand :: "string field"
  installCommand :: "string field"
  testCommand :: "string field"
  startCommand :: "string field"
  buildOutput :: "string field"
  buildOutputDir :: "string field"
  runtime :: "string field"
  deployPath :: "string field"
  domain :: "string field"
  port :: "nat field"
  runtimePort :: "nat field"
  ownerId :: "string field"
  templateId :: "string field"
  env :: rawEnv
  lastDeploy :: "string field"
  lastCommit :: "string field"

text \<open>
  What \<open>fs.readFile\<close> and \<open>JSON.parse\<close> make of the configuration file of a project:
  no file, text that is not JSON, the JSON \<open>null\<close>, a JSON number, string or boolean, or
  an object.
\<close>

datatype stored = Missing | Unparseable | ParsedNull | ParsedPrimitive | ParsedObject project

definition emptyProject :: project where
  "emptyProject =
     \<lparr> projId = Undefined, repo = Undefined, branch = Undefined, buildCommand = Undefined,
       installCommand = Undefined, testCommand = Undefined, startCommand = Undefined,
       buildOutput = Undefined, buildOutputDir = Undefined, runtime = Undefined,
       deployPath = Undefined, domain = Undefined, port = Undefined, runtimePort = Undefined,
       ownerId = Undefined, templateId = Undefined, env = EnvAbsent,
       lastDeploy = Undefined, lastCommit = Undefined \<rparr>"

definition stringOr :: "ustring field \<Rightarrow> ustring" where
  \<comment> \<open>\<open>value != null ? String(value) : ''\<close>\<close>
  "stringOr v = (case v of Val s \<Rightarrow> s | _ \<Rightarrow> [])"

definition normalizeEntry :: "envEntry \<Rightarrow> envEntry option" where
  "normalizeEntry entry =
     (if \<not> truthyS (entryKey entry) then None
      else if isSecret entry
      then Some \<lparr> entryKey = entryKey entry, isSecret = True, entryValue = Undefined,
                  encryptedValue = orS (encryptedValue entry) Null \<rparr>
      else Some \<lparr> entryKey = entryKey entry, isSecret = False,
                  entryValue = Val (stringOr (entryValue entry)), encryptedValue = Undefined \<rparr>)"

definition normalizeStoredEnv :: "rawEnv \<Rightarrow> envEntry list" where
  "normalizeStoredEnv rawEnv =
     (case rawEnv of
        EnvAbsent \<Rightarrow> []
      | EnvArray entries \<Rightarrow> List.map_filter normalizeEntry entries
      | EnvObject kvs \<Rightarrow>
          map (\<lambda>(k, v). \<lparr> entryKey = Val k, isSecret = False, entryValue = Val (stringOr v),
                           encryptedValue = Undefined \<rparr>) kvs)"

definition readProject :: "(string \<Rightarrow> stored) \<Rightarrow> string \<Rightarrow> err + project" where
  \<comment> \<open>the body of the \<open>try\<close> block of \<open>getProject\<close>; an assignment to a property of a
     number, string or boolean has no effect\<close>
  "readProject files projectId =
     (case files projectId of
        Missing \<Rightarrow> Inl (Error ''ENOENT: no such file or directory'' None)
      | Unparseable \<Rightarrow> Inl (Error ''SyntaxError: Unexpected token in JSON'' None)
      | ParsedNull \<Rightarrow> Inl (Error ''TypeError: Cannot read properties of null (reading env)'' None)
      | ParsedPrimitive \<Rightarrow> Inr (emptyProject\<lparr> projId := Val projectId \<rparr>)
      | ParsedObject dat \<Rightarrow>
          Inr (dat\<lparr> env := EnvArray (normalizeStoredEnv (env dat)),
                    ownerId := orS (ownerId dat) (Val ''admin''),
                    templateId := nullish (templateId dat) Null,
                    projId := (case projId dat of Undefined \<Rightarrow> Val projectId | v \<Rightarrow> v) \<rparr>))"

definition getProject :: "(string \<Rightarrow> stored) \<Rightarrow> string \<Rightarrow> project option" where
  \<comment> \<open>\<open>None\<close> is \<open>null\<close>\<close>
  "getProject files projectId =
     (case readProject files projectId of Inl _ \<Rightarrow> None | Inr p \<Rightarrow> Some p)"

text \<open>The update that the engine passes to \<open>updateProject\<close>; \<open>Undefined\<close> is a key left out.\<close>

record projectUpdate =
  newLastDeploy :: "string field"
  newLastCommit :: "string field"
  newRuntimePort :: "nat field"

definition override :: "'a field \<Rightarrow> 'a field \<Rightarrow> 'a field" where
  \<comment> \<open>a property of \<open>{...a, ...b}\<close>\<close>
  "override a b = (case b of Undefined \<Rightarrow> a | _ \<Rightarrow> b)"

definition envOf :: "project \<Rightarrow> envEntry list" where
  \<comment> \<open>\<open>Array.isArray(project.env) ? project.env : []\<close>\<close>
  "envOf p = (case env p of EnvArray entries \<Rightarrow> entries | _ \<Rightarrow> [])"

definition updateProject :: "(string \<Rightarrow> stored) \<Rightarrow> string \<Rightarrow> projectUpdate \<Rightarrow> err + (string \<Rightarrow> stored)" where
  \<comment> \<open>without \<open>updates.env\<close> the stored entries are copied; \<open>writeProject\<close> leaves
     \<open>id\<close> out of the file\<close>
  "updateProject files projectId updates =
     (case getProject files projectId of
        None \<Rightarrow> Inl (Error ''Project not found'' None)
      | Some existing \<Rightarrow>
          Inr (files(projectId :=
                 ParsedObject (existing\<lparr>
                   lastDeploy := override (lastDeploy existing) (newLastDeploy updates),
                   lastCommit := override (lastCommit existing) (newLastCommit updates),
                   runtimePort := override (runtimePort existing) (newRuntimePort updates),
                   ownerId := orS (ownerId existing) (Val ''admin''),
                   templateId := nullish (templateId existing) Null,
                   env := EnvArray (envOf existing),
                   projId := Undefined \<rparr>))))"

definition projectRoot :: "config \<Rightarrow> string \<Rightarrow> string" where
  "projectRoot cfg projectId = path_join [PROJECTS_DIR cfg, projectId]"

definition repoDir :: "config \<Rightarrow> string \<Rightarrow> string" where
  "repoDir cfg projectId = path_join [projectRoot cfg projectId, ''repo'']"

definition deploymentsDir :: "config \<Rightarrow> string \<Rightarrow> string" where
  "deploymentsDir cfg projectId = path_join [projectRoot cfg projectId, ''deployments'']"

definition releasesDir :: "config \<Rightarrow> string \<Rightarrow> string" where
  "releasesDir cfg projectId = path_join [projectRoot cfg projectId, RELEASES_DIR_NAME cfg]"

definition currentSymlink :: "config \<Rightarrow> string \<Rightarrow> string" where
  "currentSymlink cfg projectId = path_join [projectRoot cfg projectId, ''current'']"

definition previousSymlink :: "config \<Rightarrow> string \<Rightarrow> string" where
  "previousSymlink cfg projectId = path_join [projectRoot cfg projectId, ''previous'']"

section \<open>Command templates (\<open>commandTemplates.js\<close>)\<close>

record template =
  tInstallCommand :: "string field"
  tBuildCommand :: "string field"
  tTestCommand :: "string field"
  tStartCommand :: "string field"

definition getTemplate :: "string field \<Rightarrow> template option" where
  "getTemplate tid =
     (if \<not> truthyS tid then None
      else if tid = Val ''node-app''
      then Some \<lparr> tInstallCommand = Val ''npm ci'', tBuildCommand = Val ''npm run build'',
                  tTestCommand = Null, tStartCommand = Val ''npm start'' \<rparr>
      else if tid = Val ''static-spa''
      then Some \<lparr> tInstallCommand = Val ''npm ci'', tBuildCommand = Val ''npm run build'',
                  tTestCommand = Null, tStartCommand = Null \<rparr>
      else None)"

section \<open>The deployment store (\<open>deploymentStore.js\<close>)\<close>

record step =
  stepStatus :: "string field"
  stepStartedAt :: "string field"
  stepFinishedAt :: "string field"
  stepError :: "string field"

record deployment =
  deploymentId :: string
  projectId :: string
  status :: string
  createdAt :: string
  startedAt :: "string field"
  finishedAt :: "string field"
  steps :: "string \<rightharpoonup> step"
  commit :: "string field"
  logPath :: string
  dryRun :: bool
  error :: "string field"

text \<open>
  The deployment files by project and deployment id, and the index file, which maps a
  deployment id to its project.
\<close>

record depStore =
  depIndex :: "string \<rightharpoonup> string"
  depFiles :: "string \<times> string \<rightharpoonup> deployment"

definition getLogPath :: "config \<Rightarrow> string \<Rightarrow> string \<Rightarrow> string" where
  "getLogPath cfg pid did = path_join [LOGS_DIR cfg, pid, did @ ''.log'']"

definition createDeployment :: "config \<Rightarrow> string \<Rightarrow> string \<Rightarrow> depStore \<Rightarrow> string \<Rightarrow> bool \<Rightarrow> deployment \<times> depStore" where
  \<comment> \<open>\<open>uuid\<close> is the result of \<open>crypto.randomUUID()\<close>, \<open>now\<close> the clock\<close>
  "createDeployment cfg uuid now st pid isDry =
     (let baseRecord = \<lparr> deploymentId = uuid, projectId = pid, status = ''queued'', createdAt = now,
                          startedAt = Null, finishedAt = Null, steps = Map.empty, commit = Null,
                          logPath = getLogPath cfg pid uuid, dryRun = isDry, error = Undefined \<rparr>
      in (baseRecord, st\<lparr> depFiles := (depFiles st)((pid, uuid) \<mapsto> baseRecord),
                            depIndex := (depIndex st)(uuid \<mapsto> pid) \<rparr>))"

definition getDeployment :: "depStore \<Rightarrow> string \<Rightarrow> deployment option" where
  "getDeployment st did =
     (case depIndex st did of None \<Rightarrow> None | Some pid \<Rightarrow> depFiles st (pid, did))"

definition updateDeployment :: "depStore \<Rightarrow> string \<Rightarrow> (deployment \<Rightarrow> deployment) \<Rightarrow> depStore" where
  \<comment> \<open>\<open>{...record, ...updates}\<close> is the record update \<open>updates\<close>; nothing is written when
     the record cannot be read\<close>
  "updateDeployment st did updates =
     (case getDeployment st did of
        None \<Rightarrow> st
      | Some record \<Rightarrow> st\<lparr> depFiles := (depFiles st)((projectId record, did) \<mapsto> updates record) \<rparr>)"

definition mergeStep :: "step \<Rightarrow> step \<Rightarrow> step" where
  \<comment> \<open>\<open>{...existing, ...data}\<close>\<close>
  "mergeStep existing dat =
     \<lparr> stepStatus = override (stepStatus existing) (stepStatus dat),
       stepStartedAt = override (stepStartedAt existing) (stepStartedAt dat),
       stepFinishedAt = override (stepFinishedAt existing) (stepFinishedAt dat),
       stepError = override (stepError existing) (stepError dat) \<rparr>"

definition emptyStep :: step where
  "emptyStep = \<lparr> stepStatus = Undefined, stepStartedAt = Undefined, stepFinishedAt = Undefined,
                 stepError = Undefined \<rparr>"

definition appendStep :: "depStore \<Rightarrow> string \<Rightarrow> string \<Rightarrow> step \<Rightarrow> depStore" where
  "appendStep st did stepName dat =
     (case getDeployment st did of
        None \<Rightarrow> st
      | Some record \<Rightarrow>
          (let existing = (case steps record stepName of None \<Rightarrow> emptyStep | Some s \<Rightarrow> s);
               nextSteps = (steps record)(stepName \<mapsto> mergeStep existing dat)
           in updateDeployment st did (\<lambda>r. r\<lparr> steps := steps r ++ nextSteps \<rparr>)))"

section \<open>The host: file system, clock, child processes\<close>

text \<open>
  The file system is a map from absolute paths to nodes. A path is looked up as a whole:
  symbolic links inside a path are not followed, and missing parent directories and
  permissions are not modelled.
\<close>

datatype node = File string | Dir | Symlink string

type_synonym files = "string \<rightharpoonup> node"

definition pathExists :: "files \<Rightarrow> string \<Rightarrow> bool" where
  "pathExists f p = (f p \<noteq> None)"

definition readlink :: "files \<Rightarrow> string \<Rightarrow> err + string" where
  "readlink f p =
     (case f p of
        Some (Symlink target) \<Rightarrow> Inr target
      | None \<Rightarrow> Inl (Error ''ENOENT: no such file or directory'' None)
      | _ \<Rightarrow> Inl (Error ''EINVAL: invalid argument'' None))"

definition symlink :: "files \<Rightarrow> string \<Rightarrow> string \<Rightarrow> err + files" where
  "symlink f target p =
     (case f p of
        None \<Rightarrow> Inr (f(p \<mapsto> Symlink target))
      | Some _ \<Rightarrow> Inl (Error ''EEXIST: file already exists'' None))"

definition unlink :: "files \<Rightarrow> string \<Rightarrow> err + files" where
  "unlink f p =
     (case f p of
        None \<Rightarrow> Inl (Error ''ENOENT: no such file or directory'' None)
      | Some Dir \<Rightarrow> Inl (Error ''EISDIR: illegal operation on a directory'' None)
      | Some _ \<Rightarrow> Inr (f(p := None)))"

definition rmForce :: "files \<Rightarrow> string \<Rightarrow> err + files" where
  \<comment> \<open>\<open>fsp.rm(p, { force: true })\<close>\<close>
  "rmForce f p =
     (case f p of
        None \<Rightarrow> Inr f
      | Some Dir \<Rightarrow> Inl (Error ''ERR_FS_EISDIR: Path is a directory'' None)
      | Some _ \<Rightarrow> Inr (f(p := None)))"

definition rmRecursive :: "files \<Rightarrow> string \<Rightarrow> files" where
  \<comment> \<open>\<open>fsp.rm(p, { recursive: true, force: true })\<close>\<close>
  "rmRecursive f p = (\<lambda>q. if q = p \<or> prefix (p @ ''/'') q then None else f q)"

definition mkdirp :: "files \<Rightarrow> string \<Rightarrow> err + files" where
  \<comment> \<open>\<open>fsp.mkdir(p, { recursive: true })\<close>\<close>
  "mkdirp f p =
     (case f p of
        None \<Rightarrow> Inr (f(p \<mapsto> Dir))
      | Some (File _) \<Rightarrow> Inl (Error ''EEXIST: file already exists'' None)
      | Some _ \<Rightarrow> Inr f)"

definition writeFile :: "files \<Rightarrow> string \<Rightarrow> string \<Rightarrow> err + files" where
  "writeFile f p content =
     (case f p of
        Some Dir \<Rightarrow> Inl (Error ''EISDIR: illegal operation on a directory'' None)
      | Some (Symlink target) \<Rightarrow> Inr (f(target \<mapsto> File content))
      | _ \<Rightarrow> Inr (f(p \<mapsto> File content)))"

definition cpRecursive :: "files \<Rightarrow> string \<Rightarrow> string \<Rightarrow> err + files" where
  \<comment> \<open>\<open>fsp.cp(src, dst, { recursive: true })\<close>\<close>
  "cpRecursive f src dst =
     (case f src of
        None \<Rightarrow> Inl (Error ''ENOENT: no such file or directory'' None)
      | Some n \<Rightarrow>
          Inr (\<lambda>q. if q = dst then Some n
                    else if prefix (dst @ ''/'') q
                    then (case f (src @ drop (length dst) q) of Some m \<Rightarrow> Some m | None \<Rightarrow> f q)
                    else f q))"

definition removePath :: "files \<Rightarrow> string \<Rightarrow> err + files" where
  "removePath f target =
     (case f target of
        None \<Rightarrow> Inr f
      | Some (Symlink _) \<Rightarrow> unlink f target
      | Some Dir \<Rightarrow> Inr (rmRecursive f target)
      | Some (File _) \<Rightarrow> unlink f target)"

definition path_dirname :: "string \<Rightarrow> string" where
  \<comment> \<open>\<open>path.dirname\<close> of an absolute path that \<open>path.resolve\<close> returned\<close>
  "path_dirname p =
     (case rev (pathComponents p) of
        [] \<Rightarrow> ''/''
      | _ # parents \<Rightarrow> (if parents = [] then ''/'' else slashed (rev parents)))"

text \<open>
  What a child process does: it exits with a code (\<open>None\<close> when a signal ended it) after
  writing chunks to its standard output (\<open>True\<close>) and standard error (\<open>False\<close>), or it
  cannot be started. The host decides; it also decides what the child did to the file
  system. The clock and the random numbers are the host's too; within one call the model
  reads the same instant.
\<close>

datatype outcome = Exited "int option" "(bool \<times> string) list" | SpawnError string

record spawn =
  argv :: "string list"
  spawnCwd :: "string option"
  spawnEnv :: "(string \<rightharpoonup> ustring) option"

record host =
  hostCwd :: string
  processEnv :: "string \<rightharpoonup> ustring"
  crypto :: cryptoLib
  nowISO :: string
  nowMs :: nat
  random1000 :: nat
  childOutcome :: "nat \<Rightarrow> string list \<Rightarrow> outcome"
  childEffect :: "nat \<Rightarrow> string list \<Rightarrow> files \<Rightarrow> files"

record job =
  jobDeploymentId :: string
  jobProjectId :: string
  jobDryRun :: bool

record world =
  configs :: "string \<Rightarrow> stored"
  deployments :: depStore
  fs :: files
  logs :: "string \<rightharpoonup> string list"
  spawned :: "spawn list"
  copies :: "(string \<times> string) list"
  queue :: "job list"
  active :: nat

type_synonym 'a io = "world \<Rightarrow> (err + 'a) \<times> world"

definition returnIO :: "'a \<Rightarrow> 'a io" where
  "returnIO a w = (Inr a, w)"

definition throwIO :: "err \<Rightarrow> 'a io" where
  "throwIO e w = (Inl e, w)"

definition bindIO :: "'a io \<Rightarrow> ('a \<Rightarrow> 'b io) \<Rightarrow> 'b io" where
  \<comment> \<open>\<open>await m\<close>, then the rest; a rejection ends the sequence\<close>
  "bindIO m f w = (case m w of (Inl e, w') \<Rightarrow> (Inl e, w') | (Inr a, w') \<Rightarrow> f a w')"

definition fsIO :: "(files \<Rightarrow> err + files) \<Rightarrow> unit io" where
  "fsIO op w = (case op (fs w) of Inl e \<Rightarrow> (Inl e, w) | Inr f \<Rightarrow> (Inr (), w\<lparr> fs := f \<rparr>))"

definition swallow :: "unit io \<Rightarrow> unit io" where
  \<comment> \<open>\<open>.catch(() => {})\<close>\<close>
  "swallow m w = (case m w of (_, w') \<Rightarrow> (Inr (), w'))"

definition logWrite :: "string option \<Rightarrow> string \<Rightarrow> world \<Rightarrow> world" where
  \<comment> \<open>\<open>if (logStream) logStream.write(text)\<close>\<close>
  "logWrite logStream text w =
     (case logStream of
        None \<Rightarrow> w
      | Some p \<Rightarrow> w\<lparr> logs := (logs w)(p \<mapsto> (case logs w p of None \<Rightarrow> [] | Some l \<Rightarrow> l) @ [text]) \<rparr>)"

definition logIO :: "string option \<Rightarrow> string \<Rightarrow> unit io" where
  "logIO logStream text w = (Inr (), logWrite logStream text w)"

section \<open>The process runner (\<open>command.js\<close>)\<close>

function showNat :: "nat \<Rightarrow> string" where
  "showNat n = (if n < 10 then [char_of (48 + n)] else showNat (n div 10) @ [char_of (48 + n mod 10)])"
  by pat_completeness auto
termination
  by (relation "measure id") auto

definition showCode :: "int option \<Rightarrow> string" where
  "showCode c =
     (case c of
        None \<Rightarrow> ''null''
      | Some i \<Rightarrow> (if i < 0 then CHR ''-'' # showNat (nat (- i)) else showNat (nat i)))"

definition joinWith :: "string \<Rightarrow> string list \<Rightarrow> string" where
  \<comment> \<open>\<open>parts.join(sep)\<close>\<close>
  "joinWith sep parts = (case parts of [] \<Rightarrow> [] | p # ps \<Rightarrow> p @ concat (map (\<lambda>t. sep @ t) ps))"

record cmdResult =
  exitCode :: "int option"
  stdout :: string
  stderr :: string

record cmdOptions =
  optCwd :: "string option"
  optEnv :: "(string \<rightharpoonup> ustring) option"
  redactKeys :: "string list"

definition noOptions :: cmdOptions where
  "noOptions = \<lparr> optCwd = None, optEnv = None, redactKeys = [] \<rparr>"

fun feedChunks :: "string list \<Rightarrow> string option \<Rightarrow> (bool \<times> string) list \<Rightarrow> string \<times> string \<Rightarrow> world \<Rightarrow> (string \<times> string) \<times> world" where
  \<comment> \<open>the \<open>data\<close> handlers of \<open>stdout\<close> and \<open>stderr\<close>: the chunk is added to the captured
     output as it is and written to the log redacted\<close>
  "feedChunks keys logStream [] acc w = (acc, w)"
| "feedChunks keys logStream ((isOut, chunk) # rest) (out, errOut) w =
     feedChunks keys logStream rest
       (if isOut then (out @ chunk, errOut) else (out, errOut @ chunk))
       (logWrite logStream (redactText chunk keys) w)"

definition runCommand :: "host \<Rightarrow> string \<Rightarrow> string list \<Rightarrow> cmdOptions \<Rightarrow> string option \<Rightarrow> bool \<Rightarrow> cmdResult io" where
  "runCommand h cmd args options logStream isDry w =
       (let commandString = joinWith '' '' (cmd # args);
            safeCommand = redactText commandString (redactKeys options)
        in if isDry
           then (Inr \<lparr> exitCode = Some 0, stdout = [], stderr = [] \<rparr>,
                 logWrite logStream (''[dry-run] '' @ safeCommand @ [CHR 0x0A]) w)
           else
             let n = length (spawned w);
                 w1 = w\<lparr> spawned := spawned w @ [\<lparr> argv = cmd # args, spawnCwd = optCwd options,
                                                     spawnEnv = optEnv options \<rparr>] \<rparr>
             in (case childOutcome h n (cmd # args) of
                   SpawnError msg \<Rightarrow>
                     (Inl (Error msg None),
                      logWrite logStream (''Command failed: '' @ safeCommand @ [CHR 0x0A] @ msg @ [CHR 0x0A]) w1)
                 | Exited code chunks \<Rightarrow>
                     (case feedChunks (redactKeys options) logStream chunks ([], []) w1 of
                        ((out, errOut), w2) \<Rightarrow>
                          let w3 = w2\<lparr> fs := childEffect h n (cmd # args) (fs w2) \<rparr>
                          in if code \<noteq> Some 0
                             then (Inl (Error (''Command '' @ [CHR 0x22] @ safeCommand @ [CHR 0x22] @ '' exited with code '' @ showCode code) None), w3)
                             else (Inr \<lparr> exitCode = code, stdout = out, stderr = errOut \<rparr>, w3))))"

definition runShellCommand :: "host \<Rightarrow> string \<Rightarrow> cmdOptions \<Rightarrow> string option \<Rightarrow> bool \<Rightarrow> cmdResult io" where
  "runShellCommand h script options logStream isDry w =
     runCommand h ''bash'' [''-lc'', script] options logStream isDry w"

section \<open>The web-server configuration writer (\<open>nginxManager.js\<close>)\<close>

record nginxOptions =
  ngRuntime :: string
  ngDomain :: "string field"
  ngDeployPath :: string
  ngRuntimePort :: "nat field"

definition renderStaticConfig :: "string field \<Rightarrow> string \<Rightarrow> string" where
  "renderStaticConfig domainName dp =
     ''server {'' @ [CHR 0x0A] @
     ''    listen 80;'' @ [CHR 0x0A] @
     ''    server_name '' @ str (orS domainName (Val ''_'')) @ '';'' @ [CHR 0x0A] @
     [CHR 0x0A] @
     ''    root '' @ dp @ '';'' @ [CHR 0x0A] @
     ''    index index.html;'' @ [CHR 0x0A] @
     [CHR 0x0A] @
     ''    location / {'' @ [CHR 0x0A] @
     ''        try_files $uri /index.html;'' @ [CHR 0x0A] @
     ''    }'' @ [CHR 0x0A] @
     ''}''"

definition renderProxyConfig :: "string field \<Rightarrow> nat \<Rightarrow> string" where
  "renderProxyConfig domainName proxyPort =
     ''server {'' @ [CHR 0x0A] @
     ''    listen 80;'' @ [CHR 0x0A] @
     ''    server_name '' @ str (orS domainName (Val ''_'')) @ '';'' @ [CHR 0x0A] @
     [CHR 0x0A] @
     ''    location / {'' @ [CHR 0x0A] @
     ''        proxy_pass http://127.0.0.1:'' @ showNat proxyPort @ '';'' @ [CHR 0x0A] @
     ''        proxy_http_version 1.1;'' @ [CHR 0x0A] @
     ''        proxy_set_header Upgrade $http_upgrade;'' @ [CHR 0x0A] @
     ''        proxy_set_header Connection '' @ [CHR 0x27] @ ''upgrade'' @ [CHR 0x27] @ '';'' @ [CHR 0x0A] @
     ''        proxy_set_header Host $host;'' @ [CHR 0x0A] @
     ''        proxy_cache_bypass $http_upgrade;'' @ [CHR 0x0A] @
     ''    }'' @ [CHR 0x0A] @
     ''}''"

definition linkEnabled :: "string \<Rightarrow> string \<Rightarrow> unit io" where
  \<comment> \<open>\<open>fs.symlink(availablePath, enabledPath)\<close> with its handler for \<open>EEXIST\<close>\<close>
  "linkEnabled availablePath enabledPath w =
         (case fs w enabledPath of
             None \<Rightarrow> fsIO (\<lambda>f. symlink f availablePath enabledPath) w
           | Some n \<Rightarrow>
               if n = Symlink availablePath then (Inr (), w)
               else bindIO (fsIO (\<lambda>f. unlink f enabledPath))
                      (\<lambda>_. fsIO (\<lambda>f. symlink f availablePath enabledPath)) w)"

definition writeConfig :: "host \<Rightarrow> config \<Rightarrow> string \<Rightarrow> nginxOptions \<Rightarrow> string option \<Rightarrow> bool \<Rightarrow> unit io" where
  "writeConfig h cfg pid options logStream isDry w =
     (if ngRuntime options = ''node'' \<and> \<not> truthyN (ngRuntimePort options)
      then throwIO (Error ''runtimePort is required for node runtime'' None) w
      else
        let availablePath = path_join [NGINX_SITES_AVAILABLE cfg, ''deployer-'' @ pid @ ''.conf''];
            enabledPath = path_join [NGINX_SITES_ENABLED cfg, ''deployer-'' @ pid @ ''.conf''];
            content = (if ngRuntime options = ''node''
                       then renderProxyConfig (ngDomain options)
                              (case ngRuntimePort options of Val n \<Rightarrow> n | _ \<Rightarrow> 0)
                       else renderStaticConfig (ngDomain options) (ngDeployPath options))
        in bindIO (logIO logStream (''Writing nginx config '' @ availablePath @ [CHR 0x0A]))
          (\<lambda>_. bindIO (if isDry then returnIO ()
                        else bindIO (fsIO (\<lambda>f. mkdirp f (NGINX_SITES_AVAILABLE cfg)))
                          (\<lambda>_. bindIO (fsIO (\<lambda>f. mkdirp f (NGINX_SITES_ENABLED cfg)))
                          (\<lambda>_. bindIO (fsIO (\<lambda>f. writeFile f availablePath content))
                          (\<lambda>_. linkEnabled availablePath enabledPath))))
          (\<lambda>_. bindIO (runCommand h ''nginx'' [''-t''] noOptions logStream isDry)
          (\<lambda>_. bindIO (runCommand h ''systemctl'' [''reload'', ''nginx''] noOptions logStream isDry)
          (\<lambda>_. returnIO ())))) w)"

section \<open>The pipeline engine (\<open>deployEngine.js\<close>, the variant with the owner check)\<close>

subsection \<open>Admission and dispatch\<close>

definition engineMaxConcurrent :: "config \<Rightarrow> int" where
  \<comment> \<open>\<open>Math.max(1, config.MAX_CONCURRENT_DEPLOYS || 1)\<close>; \<open>None\<close> is \<open>NaN\<close>\<close>
  "engineMaxConcurrent cfg =
     max 1 (case MAX_CONCURRENT_DEPLOYS cfg of None \<Rightarrow> 1 | Some n \<Rightarrow> if n = 0 then 1 else n)"

definition engineMaxQueue :: "config \<Rightarrow> int" where
  \<comment> \<open>\<open>Math.max(1, config.MAX_QUEUE_SIZE || 50)\<close>\<close>
  "engineMaxQueue cfg =
     max 1 (case MAX_QUEUE_SIZE cfg of None \<Rightarrow> 50 | Some n \<Rightarrow> if n = 0 then 50 else n)"

definition ownerIsAdmin :: "project \<Rightarrow> bool" where
  \<comment> \<open>\<open>(project.ownerId || ADMIN_OWNER_ID) === ADMIN_OWNER_ID\<close>\<close>
  "ownerIsAdmin p = (orS (ownerId p) (Val ''admin'') = Val ''admin'')"

definition queueFull :: err where
  "queueFull = Error ''Deployment queue is full. Try again later.'' (Some 429)"

definition admit :: "host \<Rightarrow> config \<Rightarrow> world \<Rightarrow> string \<Rightarrow> err + unit" where
  \<comment> \<open>\<open>queueDeployment\<close> up to its bound check; nothing is written\<close>
  "admit h cfg w pid =
     (case getProject (configs w) pid of
        None \<Rightarrow> Inl (Error ''Project missing deployPath'' None)
      | Some p \<Rightarrow>
          if \<not> truthyS (deployPath p) then Inl (Error ''Project missing deployPath'' None)
          else if \<not> truthyS (repo p)
          then Inl (Error ''Project configuration incomplete (repo and branch required)'' None)
          else if \<not> truthyS (branch p)
          then Inl (Error ''Project configuration incomplete (repo and branch required)'' None)
          else if ownerIsAdmin p \<and> \<not> truthyS (buildCommand p)
          then Inl (Error ''Project configuration incomplete (buildCommand required)'' None)
          else if \<not> ownerIsAdmin p \<and> \<not> truthyS (templateId p)
          then Inl (Error ''Project missing command template'' None)
          else (case ensureDeployPathWithinRoot cfg (hostCwd h) (str (deployPath p)) of
                  Inl m \<Rightarrow> Inl (Error m None)
                | Inr _ \<Rightarrow>
                    if int (length (queue w)) + int (active w) \<ge> engineMaxQueue cfg
                    then Inl queueFull
                    else Inr ()))"

definition processQueue_take :: "config \<Rightarrow> world \<Rightarrow> job option \<times> world" where
  \<comment> \<open>\<open>processQueue\<close> up to the call of \<open>runDeployment\<close>\<close>
  "processQueue_take cfg w =
     (if int (active w) \<ge> engineMaxConcurrent cfg then (None, w)
      else (case queue w of
              [] \<Rightarrow> (None, w)
            | j # rest \<Rightarrow> (Some j, w\<lparr> queue := rest, active := active w + 1 \<rparr>)))"

definition processQueue_finally :: "config \<Rightarrow> world \<Rightarrow> job option \<times> world" where
  \<comment> \<open>the \<open>finally\<close> block of \<open>processQueue\<close>\<close>
  "processQueue_finally cfg w =
     (let w1 = w\<lparr> active := active w - 1 \<rparr>
      in if length (queue w1) > 0 then processQueue_take cfg w1 else (None, w1))"

definition enqueue :: "host \<Rightarrow> config \<Rightarrow> string \<Rightarrow> string \<Rightarrow> bool \<Rightarrow> world \<Rightarrow> (string \<times> job option) \<times> world" where
  \<comment> \<open>\<open>queueDeployment\<close> after its bound check: the record is created, the job pushed and
     \<open>processQueue\<close> called; the result is the new deployment id and the job that was
     dispatched, if one was\<close>
  "enqueue h cfg uuid pid isDry w =
     (case createDeployment cfg uuid (nowISO h) (deployments w) pid isDry of
        (deployment, st) \<Rightarrow>
          let w1 = w\<lparr> deployments := st,
                       queue := queue w @ [\<lparr> jobDeploymentId = deploymentId deployment,
                                              jobProjectId = pid, jobDryRun = isDry \<rparr>] \<rparr>
          in (case processQueue_take cfg w1 of
                (started, w2) \<Rightarrow> ((deploymentId deployment, started), w2)))"

definition queueDeployment :: "host \<Rightarrow> config \<Rightarrow> string \<Rightarrow> string \<Rightarrow> bool \<Rightarrow> world \<Rightarrow> (err + string \<times> job option) \<times> world" where
  \<comment> \<open>a call that no other call overlaps\<close>
  "queueDeployment h cfg uuid pid isDry w =
     (case admit h cfg w pid of
        Inl e \<Rightarrow> (Inl e, w)
      | Inr _ \<Rightarrow> (case enqueue h cfg uuid pid isDry w of (r, w') \<Rightarrow> (Inr r, w')))"

subsection \<open>The context of a run\<close>

record ctx =
  cProject :: project
  cRepoPath :: string
  cReleasesDir :: string
  cSafeDeployPath :: string
  cIsAdmin :: bool
  cTemplate :: "template option"
  cEnv :: "string \<rightharpoonup> ustring"
  cSecretKeys :: "string list"
  cRuntimeType :: string
  cRuntimePort :: "nat field"
  cCommitHash :: "string field"
  cReleasePath :: "string option"
  cLog :: "string option"
  cDry :: bool
  cDid :: string
  cPid :: string

definition js :: "string \<Rightarrow> ustring" where
  "js s = map of_char s"

definition truthyU :: "ustring field \<Rightarrow> bool" where
  "truthyU f = (case f of Val s \<Rightarrow> s \<noteq> [] | _ \<Rightarrow> False)"

fun buildEnvMaps :: "cryptoLib \<Rightarrow> config \<Rightarrow> envEntry list
    \<Rightarrow> (string \<rightharpoonup> ustring) \<times> (string \<rightharpoonup> ustring) \<times> string list
    \<Rightarrow> err + (string \<rightharpoonup> ustring) \<times> (string \<rightharpoonup> ustring) \<times> string list" where
  "buildEnvMaps lib cfg [] acc = Inr acc"
| "buildEnvMaps lib cfg (entry # rest) (plainEnv, secretEnv, secretKeys) =
     (if \<not> truthyS (entryKey entry) then buildEnvMaps lib cfg rest (plainEnv, secretEnv, secretKeys)
      else if isSecret entry then
        (if truthyS (encryptedValue entry) then
           (case decryptSecret lib cfg (str (encryptedValue entry)) of
              Inl e \<Rightarrow> Inl e
            | Inr v \<Rightarrow> buildEnvMaps lib cfg rest
                        (plainEnv, secretEnv(str (entryKey entry) \<mapsto> v), secretKeys @ [str (entryKey entry)]))
         else if truthyU (entryValue entry) then
           buildEnvMaps lib cfg rest
             (plainEnv, secretEnv(str (entryKey entry) \<mapsto> stringOr (entryValue entry)),
              secretKeys @ [str (entryKey entry)])
         else Inl (Error (''Secret env '' @ str (entryKey entry) @ '' does not have an encrypted value'') None))
      else (case entryValue entry of
              Undefined \<Rightarrow> buildEnvMaps lib cfg rest (plainEnv, secretEnv, secretKeys)
            | Null \<Rightarrow> buildEnvMaps lib cfg rest
                        (plainEnv(str (entryKey entry) \<mapsto> js ''null''), secretEnv, secretKeys)
            | Val v \<Rightarrow> buildEnvMaps lib cfg rest
                        (plainEnv(str (entryKey entry) \<mapsto> v), secretEnv, secretKeys)))"

definition jsNumber :: "ustring \<Rightarrow> nat field" where
  \<comment> \<open>\<open>Number(text)\<close> for a text of decimal digits; any other text gives \<open>Null\<close>, which
     stands for a value that the static template does not read\<close>
  "jsNumber t =
     (if t \<noteq> [] \<and> list_all (\<lambda>c. 48 \<le> c \<and> c \<le> 57) t
      then Val (foldl (\<lambda>acc c. 10 * acc + (c - 48)) 0 t) else Null)"

definition showPort :: "nat field \<Rightarrow> ustring" where
  \<comment> \<open>\<open>String(port)\<close> of a truthy port\<close>
  "showPort p = (case p of Val n \<Rightarrow> js (showNat n) | _ \<Rightarrow> js ''null'')"

definition loadContext :: "host \<Rightarrow> config \<Rightarrow> job \<Rightarrow> project \<Rightarrow> err + ctx" where
  \<comment> \<open>\<open>runDeployment\<close> from \<open>repoPath\<close> to the definition of \<open>runStep\<close>\<close>
  "loadContext h cfg j p =
     (case deployPath p of
        Val dp \<Rightarrow>
          (case ensureDeployPathWithinRoot cfg (hostCwd h) dp of
             Inl m \<Rightarrow> Inl (Error m None)
           | Inr safeDeployPath \<Rightarrow>
               let isAdminProject = ownerIsAdmin p;
                   templateCommands = (if \<not> isAdminProject \<and> truthyS (templateId p)
                                       then getTemplate (templateId p) else None)
               in if \<not> isAdminProject \<and> templateCommands = None
                  then Inl (Error ''Command template missing or invalid for this project'' None)
                  else
                    (case buildEnvMaps (crypto h) cfg (envOf p) (Map.empty, Map.empty, []) of
                       Inl e \<Rightarrow> Inl (Error (''Failed to decrypt secrets: '' @ message e) None)
                     | Inr (plainEnv, secretEnv, secretKeys) \<Rightarrow>
                         let env0 = processEnv h ++ plainEnv ++ secretEnv;
                             runtimeType = str (orS (runtime p) (Val ''static''));
                             nodePort = orN (orN (runtimePort p) (port p)) (Val (4000 + random1000 h mod 1000));
                             port1 = (if runtimeType = ''node'' then nodePort
                                      else if truthyN (orN (runtimePort p) (port p))
                                      then orN (runtimePort p) (port p) else Null);
                             p1 = (if runtimeType = ''node'' \<and> \<not> truthyN (runtimePort p) \<and> \<not> jobDryRun j
                                   then p\<lparr> runtimePort := nodePort \<rparr> else p);
                             env1 = (if runtimeType = ''node'' then env0(''PORT'' \<mapsto> showPort nodePort) else env0);
                             port2 = (if \<not> truthyN port1 \<and> truthyU (case env1 ''PORT'' of None \<Rightarrow> Undefined | Some v \<Rightarrow> Val v)
                                      then jsNumber (the (env1 ''PORT'')) else port1);
                             env2 = (if truthyN (runtimePort p1) then env1(''PORT'' \<mapsto> showPort (runtimePort p1))
                                     else if truthyN (port p1) then env1(''PORT'' \<mapsto> showPort (port p1))
                                     else env1)
                         in Inr \<lparr> cProject = p1,
                                  cRepoPath = path_resolve (hostCwd h) [repoDir cfg (jobProjectId j)],
                                  cReleasesDir = path_resolve (hostCwd h) [releasesDir cfg (jobProjectId j)],
                                  cSafeDeployPath = safeDeployPath,
                                  cIsAdmin = isAdminProject,
                                  cTemplate = templateCommands,
                                  cEnv = env2,
                                  cSecretKeys = secretKeys,
                                  cRuntimeType = runtimeType,
                                  cRuntimePort = port2,
                                  cCommitHash = Null,
                                  cReleasePath = None,
                                  cLog = Some (getLogPath cfg (jobProjectId j) (jobDeploymentId j)),
                                  cDry = jobDryRun j,
                                  cDid = jobDeploymentId j,
                                  cPid = jobProjectId j \<rparr>))
      | _ \<Rightarrow> Inl (Error ''TypeError [ERR_INVALID_ARG_TYPE]: The paths[0] argument must be of type string'' None))"

definition openLog :: "string \<Rightarrow> unit io" where
  \<comment> \<open>\<open>fs.createWriteStream(logPath, { flags: 'a' })\<close>\<close>
  "openLog logFile w =
     (Inr (), w\<lparr> logs := (logs w)(logFile \<mapsto> (case logs w logFile of None \<Rightarrow> [] | Some l \<Rightarrow> l)) \<rparr>)"

definition deploymentIO :: "string \<Rightarrow> (deployment \<Rightarrow> deployment) \<Rightarrow> unit io" where
  \<comment> \<open>\<open>await deploymentStore.updateDeployment(deploymentId, updates)\<close>\<close>
  "deploymentIO did updates w = (Inr (), w\<lparr> deployments := updateDeployment (deployments w) did updates \<rparr>)"

definition readContext :: "host \<Rightarrow> config \<Rightarrow> job \<Rightarrow> ctx io" where
  "readContext h cfg j w =
     (case getProject (configs w) (jobProjectId j) of
        None \<Rightarrow> (Inl (Error ''TypeError: Cannot read properties of null (reading deployPath)'' None), w)
      | Some p \<Rightarrow> (loadContext h cfg j p, w))"

definition prelude :: "host \<Rightarrow> config \<Rightarrow> job \<Rightarrow> ctx io" where
  \<comment> \<open>\<open>runDeployment\<close> before its \<open>try\<close> block: the log stream is opened, the record set to
     \<open>running\<close> and the project read; an exception here leaves \<open>runDeployment\<close>\<close>
  "prelude h cfg j w =
     (let logFile = getLogPath cfg (jobProjectId j) (jobDeploymentId j)
      in bindIO (fsIO (\<lambda>f. mkdirp f (path_dirname logFile)))
        (\<lambda>_. bindIO (openLog logFile)
        (\<lambda>_. bindIO (deploymentIO (jobDeploymentId j) (\<lambda>d. d\<lparr> status := ''running'', startedAt := Val (nowISO h) \<rparr>))
        (\<lambda>_. readContext h cfg j))) w)"

subsection \<open>The steps\<close>

definition withRedaction :: "ctx \<Rightarrow> cmdOptions \<Rightarrow> cmdOptions" where
  "withRedaction c opts = (if cSecretKeys c \<noteq> [] then opts\<lparr> redactKeys := cSecretKeys c \<rparr> else opts)"

definition inRepo :: "ctx \<Rightarrow> cmdOptions" where
  \<comment> \<open>\<open>{ cwd: repoPath }\<close>\<close>
  "inRepo c = noOptions\<lparr> optCwd := Some (cRepoPath c) \<rparr>"

definition inRepoWithEnv :: "ctx \<Rightarrow> cmdOptions" where
  \<comment> \<open>\<open>{ cwd: repoPath, env }\<close>\<close>
  "inRepoWithEnv c = noOptions\<lparr> optCwd := Some (cRepoPath c), optEnv := Some (cEnv c) \<rparr>"

definition runStep :: "host \<Rightarrow> string \<Rightarrow> string \<Rightarrow> (ctx \<Rightarrow> ctx io) \<Rightarrow> ctx \<Rightarrow> ctx io" where
  "runStep h did name fn c w =
       (let w1 = w\<lparr> deployments := appendStep (deployments w) did name
                       (emptyStep\<lparr> stepStatus := Val ''running'', stepStartedAt := Val (nowISO h) \<rparr>) \<rparr>
        in (case fn c w1 of
              (Inr result, w2) \<Rightarrow>
                (Inr result,
                 w2\<lparr> deployments := appendStep (deployments w2) did name
                        (emptyStep\<lparr> stepStatus := Val ''success'', stepFinishedAt := Val (nowISO h) \<rparr>) \<rparr>)
            | (Inl e, w2) \<Rightarrow>
                (Inl e,
                 w2\<lparr> deployments := appendStep (deployments w2) did name
                        (emptyStep\<lparr> stepStatus := Val ''failed'', stepFinishedAt := Val (nowISO h),
                                    stepError := Val (message e) \<rparr>) \<rparr>)))"

definition syncStep :: "host \<Rightarrow> config \<Rightarrow> ctx \<Rightarrow> ctx io" where
  "syncStep h cfg c w =
       (let repoExists = pathExists (fs w) (path_join [cRepoPath c, ''.git''])
        in (case repo (cProject c) of
              Val r \<Rightarrow>
                (let repoUrl = (if suffix ''.git'' r then r else r @ ''.git'')
                 in bindIO
                      (if \<not> repoExists
                       then bindIO (if \<not> cDry c then fsIO (\<lambda>f. mkdirp f (path_dirname (cRepoPath c))) else returnIO ())
                              (\<lambda>_. bindIO (runCommand h ''git'' [''clone'', ''--branch'', str (branch (cProject c)), repoUrl, cRepoPath c]
                                             (withRedaction c noOptions) (cLog c) (cDry c))
                              (\<lambda>_. returnIO ()))
                       else bindIO (runCommand h ''git'' [''fetch'', ''--all'', ''--prune''] (withRedaction c (inRepo c)) (cLog c) (cDry c))
                              (\<lambda>_. bindIO (runCommand h ''git'' [''checkout'', str (branch (cProject c))] (withRedaction c (inRepo c)) (cLog c) (cDry c))
                              (\<lambda>_. bindIO (runCommand h ''git'' [''pull'', ''--ff-only''] (withRedaction c (inRepo c)) (cLog c) (cDry c))
                              (\<lambda>_. returnIO ()))))
                      (\<lambda>_. bindIO (runCommand h ''git'' [''rev-parse'', ''HEAD''] (withRedaction c (inRepo c)) (cLog c) (cDry c))
                      (\<lambda>result. bindIO (deploymentIO (cDid c) (\<lambda>d. d\<lparr> commit := Val (trim (stdout result)) \<rparr>))
                      (\<lambda>_. returnIO (c\<lparr> cCommitHash := Val (trim (stdout result)) \<rparr>)))) w)
            | _ \<Rightarrow> (Inl (Error ''TypeError: Cannot read properties of undefined (reading endsWith)'' None), w)))"

definition installCommandOf :: "files \<Rightarrow> ctx \<Rightarrow> string field" where
  "installCommandOf f c =
     (if cIsAdmin c then
        (if truthyS (installCommand (cProject c)) then installCommand (cProject c)
         else if pathExists f (path_join [cRepoPath c, ''package-lock.json'']) then Val ''npm ci''
         else if pathExists f (path_join [cRepoPath c, ''package.json'']) then Val ''npm install --production''
         else installCommand (cProject c))
      else (case cTemplate c of
              Some t \<Rightarrow> orS (tInstallCommand t) Null
            | None \<Rightarrow> Null))"

definition installStep :: "host \<Rightarrow> config \<Rightarrow> ctx \<Rightarrow> ctx io" where
  "installStep h cfg c w =
       (let installCmd = installCommandOf (fs w) c
        in if truthyS installCmd
           then bindIO (runShellCommand h (str installCmd) (withRedaction c (inRepoWithEnv c)) (cLog c) (cDry c))
                  (\<lambda>_. returnIO c) w
           else (Inr c, logWrite (cLog c) (''No install command defined, skipping'' @ [CHR 0x0A]) w))"

definition testCommandOf :: "ctx \<Rightarrow> string field" where
  "testCommandOf c =
     (if cIsAdmin c then testCommand (cProject c)
      else (case cTemplate c of Some t \<Rightarrow> tTestCommand t | None \<Rightarrow> Null))"

definition testStep :: "host \<Rightarrow> config \<Rightarrow> ctx \<Rightarrow> ctx io" where
  "testStep h cfg c w =
     (if \<not> truthyS (testCommandOf c)
      then (Inr c, logWrite (cLog c) (''No test command, skipping'' @ [CHR 0x0A]) w)
      else bindIO (runShellCommand h (str (testCommandOf c)) (withRedaction c (inRepoWithEnv c)) (cLog c) (cDry c))
             (\<lambda>_. returnIO c) w)"

definition buildCommandOf :: "ctx \<Rightarrow> string field" where
  "buildCommandOf c =
     (if cIsAdmin c then orS (buildCommand (cProject c)) (Val ''npm run build'')
      else (case cTemplate c of Some t \<Rightarrow> tBuildCommand t | None \<Rightarrow> Null))"

definition buildStep :: "host \<Rightarrow> config \<Rightarrow> ctx \<Rightarrow> ctx io" where
  "buildStep h cfg c w =
     (if \<not> truthyS (buildCommandOf c)
      then throwIO (Error ''Build command is not configured for this project/template'' None) w
      else bindIO (runShellCommand h (str (buildCommandOf c)) (withRedaction c (inRepoWithEnv c)) (cLog c) (cDry c))
             (\<lambda>_. returnIO c) w)"

definition outputDirOf :: "config \<Rightarrow> project \<Rightarrow> string field" where
  \<comment> \<open>\<open>project.buildOutputDir || project.buildOutput || config.DEFAULT_BUILD_OUTPUT\<close>\<close>
  "outputDirOf cfg p = orS (orS (buildOutputDir p) (buildOutput p)) (Val (DEFAULT_BUILD_OUTPUT cfg))"

definition releaseNameOf :: "host \<Rightarrow> ctx \<Rightarrow> string" where
  "releaseNameOf h c = showNat (nowMs h) @ ''-'' @ take 7 (str (orS (cCommitHash c) (Val ''latest'')))"

definition recordCopy :: "string \<Rightarrow> string \<Rightarrow> unit io" where
  \<comment> \<open>the model's record of a finished \<open>fsp.cp\<close>\<close>
  "recordCopy src dst w = (Inr (), w\<lparr> copies := copies w @ [(src, dst)] \<rparr>)"

definition readlinkOrNull :: "string \<Rightarrow> string field io" where
  \<comment> \<open>\<open>fsp.readlink\<close> in a \<open>try\<close> block that ignores the exception\<close>
  "readlinkOrNull p w = (Inr (case readlink (fs w) p of Inr t \<Rightarrow> Val t | Inl _ \<Rightarrow> Null), w)"

definition publish :: "host \<Rightarrow> config \<Rightarrow> ctx \<Rightarrow> string \<Rightarrow> string \<Rightarrow> ctx io" where
  \<comment> \<open>the release step from \<open>releaseName\<close> on: the copy from \<open>absOutput\<close> and the links to
     the new release, the last one at \<open>deployTarget\<close>\<close>
  "publish h cfg c absOutput deployTarget w =
     (let releasePath = path_join [cReleasesDir c, releaseNameOf h c];
          currentLink = currentSymlink cfg (cPid c);
          previousLink = previousSymlink cfg (cPid c)
      in bindIO (if \<not> cDry c
                 then bindIO (fsIO (\<lambda>f. mkdirp f releasePath))
                        (\<lambda>_. bindIO (fsIO (\<lambda>f. cpRecursive f absOutput releasePath))
                        (\<lambda>_. recordCopy absOutput releasePath))
                 else returnIO ())
        (\<lambda>_. bindIO (readlinkOrNull currentLink)
        (\<lambda>previousTarget.
              bindIO (if \<not> cDry c
                      then bindIO (if truthyS previousTarget
                                   then bindIO (swallow (fsIO (\<lambda>f. rmForce f previousLink)))
                                          (\<lambda>_. swallow (fsIO (\<lambda>f. symlink f (str previousTarget) previousLink)))
                                   else returnIO ())
                             (\<lambda>_. bindIO (swallow (fsIO (\<lambda>f. rmForce f currentLink)))
                             (\<lambda>_. bindIO (fsIO (\<lambda>f. symlink f releasePath currentLink))
                             (\<lambda>_. bindIO (fsIO (\<lambda>f. mkdirp f (path_dirname deployTarget)))
                             (\<lambda>_. bindIO (fsIO (\<lambda>f. removePath f deployTarget))
                             (\<lambda>_. fsIO (\<lambda>f. symlink f releasePath deployTarget))))))
                      else returnIO ())
                (\<lambda>_. returnIO (c\<lparr> cReleasePath := Some releasePath \<rparr>)))) w)"

definition releaseStep :: "host \<Rightarrow> config \<Rightarrow> ctx \<Rightarrow> ctx io" where
  "releaseStep h cfg c w =
     (case ensureWithinBase (hostCwd h) (cRepoPath c) (outputDirOf cfg (cProject c)) ''Build output path'' of
        Inl m \<Rightarrow> throwIO (Error m None) w
      | Inr absOutput \<Rightarrow>
          if \<not> cDry c \<and> \<not> pathExists (fs w) absOutput
          then (Inl (Error (''Build output directory not found: '' @ absOutput) None), w)
          else publish h cfg c absOutput (cSafeDeployPath c) w)"

definition nginxStep :: "host \<Rightarrow> config \<Rightarrow> ctx \<Rightarrow> ctx io" where
  "nginxStep h cfg c w =
     bindIO (writeConfig h cfg (cPid c)
               \<lparr> ngRuntime = cRuntimeType c, ngDomain = domain (cProject c),
                 ngDeployPath = cSafeDeployPath c, ngRuntimePort = cRuntimePort c \<rparr>
               (cLog c) (cDry c))
       (\<lambda>_. returnIO c) w"

definition startCommandOf :: "ctx \<Rightarrow> string field" where
  "startCommandOf c =
     (if cIsAdmin c then startCommand (cProject c)
      else (case cTemplate c of Some t \<Rightarrow> tStartCommand t | None \<Rightarrow> Null))"

definition runtimeStep :: "host \<Rightarrow> config \<Rightarrow> ctx \<Rightarrow> ctx io" where
  "runtimeStep h cfg c w =
     (if cRuntimeType c \<noteq> ''node''
      then (Inr c, logWrite (cLog c) (''Runtime not node, skipping pm2'' @ [CHR 0x0A]) w)
      else if \<not> truthyS (startCommandOf c)
      then throwIO (Error ''startCommand required for node runtime'' None) w
      else (case (if cDry c
                    then (case cReleasePath c of
                            Some rp \<Rightarrow> Inr rp
                          | None \<Rightarrow> Inl (Error ''TypeError: Cannot read properties of null (reading releasePath)'' None))
                    else readlink (fs w) (currentSymlink cfg (cPid c))) of
                Inl e \<Rightarrow> (Inl e, w)
              | Inr currentRelease \<Rightarrow>
                  bindIO (runCommand h (PM2_BIN cfg)
                            [''start'', ''bash'', ''--name'', cPid c, ''--cwd'', currentRelease,
                             ''--update-env'', ''--'', ''-lc'', str (startCommandOf c)]
                            (withRedaction c (noOptions\<lparr> optEnv := Some ((cEnv c)(''PORT'' \<mapsto> showPort (cRuntimePort c))) \<rparr>))
                            (cLog c) (cDry c))
                    (\<lambda>_. returnIO c) w))"

subsection \<open>A run\<close>

definition pipeline :: "host \<Rightarrow> config \<Rightarrow> (string \<times> (ctx \<Rightarrow> ctx io)) list" where
  "pipeline h cfg =
     [(''sync'', syncStep h cfg), (''install'', installStep h cfg), (''test'', testStep h cfg),
      (''build'', buildStep h cfg), (''release'', releaseStep h cfg), (''nginx'', nginxStep h cfg),
      (''runtime'', runtimeStep h cfg)]"

fun runSteps :: "host \<Rightarrow> string \<Rightarrow> (string \<times> (ctx \<Rightarrow> ctx io)) list \<Rightarrow> ctx \<Rightarrow> ctx io" where
  \<comment> \<open>the \<open>await runStep(...)\<close> statements in their order\<close>
  "runSteps h did [] c w = returnIO c w"
| "runSteps h did ((name, fn) # rest) c w = bindIO (runStep h did name fn c) (runSteps h did rest) w"

definition finish :: "host \<Rightarrow> ctx \<Rightarrow> unit io" where
  \<comment> \<open>the end of the \<open>try\<close> block, after the last step\<close>
  "finish h c w =
       (let w1 = w\<lparr> deployments := updateDeployment (deployments w) (cDid c)
                       (\<lambda>d. d\<lparr> status := ''success'', finishedAt := Val (nowISO h) \<rparr>) \<rparr>;
            projectUpdate = \<lparr> newLastDeploy = Val (nowISO h), newLastCommit = cCommitHash c,
                              newRuntimePort = (if truthyN (runtimePort (cProject c))
                                                then runtimePort (cProject c) else Undefined) \<rparr>
        in (case updateProject (configs w1) (cPid c) projectUpdate of
              Inl e \<Rightarrow> (Inl e, w1)
            | Inr files' \<Rightarrow> (Inr (), w1\<lparr> configs := files' \<rparr>)))"

definition failed :: "host \<Rightarrow> string \<Rightarrow> string option \<Rightarrow> err \<Rightarrow> world \<Rightarrow> world" where
  \<comment> \<open>the \<open>catch\<close> block; the stack of an error is its name and message\<close>
  "failed h did logStream e w =
     logWrite logStream (''Deployment failed: Error: '' @ message e @ [CHR 0x0A])
       (w\<lparr> deployments := updateDeployment (deployments w) did
              (\<lambda>d. d\<lparr> status := ''failed'', finishedAt := Val (nowISO h), error := Val (message e) \<rparr>) \<rparr>)"

definition runDeployment :: "host \<Rightarrow> config \<Rightarrow> job \<Rightarrow> world \<Rightarrow> err option \<times> world" where
  \<comment> \<open>the result is the exception that left \<open>runDeployment\<close>, if one did\<close>
  "runDeployment h cfg j w =
     (case prelude h cfg j w of
        (Inl e, w1) \<Rightarrow> (Some e, w1)
      | (Inr c, w1) \<Rightarrow>
          (case bindIO (runSteps h (jobDeploymentId j) (pipeline h cfg) c) (finish h) w1 of
             (Inr _, w2) \<Rightarrow> (None, w2)
           | (Inl e, w2) \<Rightarrow> (None, failed h (jobDeploymentId j) (cLog c) e w2)))"

subsection \<open>Rollback\<close>

definition repoint :: "host \<Rightarrow> config \<Rightarrow> string \<Rightarrow> string \<Rightarrow> unit io" where
  \<comment> \<open>\<open>rollbackProject\<close> from the read of the project on\<close>
  "repoint h cfg pid previousTarget w =
     (case getProject (configs w) pid of
        None \<Rightarrow> (Inl (Error ''Project not found'' None), w)
      | Some p \<Rightarrow>
          if \<not> truthyS (deployPath p) then (Inl (Error ''Project missing deployPath'' None), w)
          else (case ensureDeployPathWithinRoot cfg (hostCwd h) (str (deployPath p)) of
                  Inl m \<Rightarrow> (Inl (Error m None), w)
                | Inr safeDeployPath \<Rightarrow>
                    bindIO (fsIO (\<lambda>f. removePath f safeDeployPath))
                      (\<lambda>_. bindIO (fsIO (\<lambda>f. symlink f previousTarget safeDeployPath))
                      (\<lambda>_. bindIO (writeConfig h cfg pid
                                     \<lparr> ngRuntime = str (orS (runtime p) (Val ''static'')),
                                       ngDomain = domain p, ngDeployPath = safeDeployPath,
                                       ngRuntimePort = orN (runtimePort p) (port p) \<rparr>
                                     None False)
                      (\<lambda>_. if str (orS (runtime p) (Val ''static'')) = ''node'' \<and> truthyS (startCommand p)
                            then bindIO (runCommand h (PM2_BIN cfg) [''restart'', pid] noOptions None False)
                                   (\<lambda>_. returnIO ())
                            else returnIO ()))) w))"

definition rollbackProject :: "host \<Rightarrow> config \<Rightarrow> string \<Rightarrow> unit io" where
  "rollbackProject h cfg pid w =
       (case readlink (fs w) (previousSymlink cfg pid) of
          Inl _ \<Rightarrow> (Inl (Error ''No previous release to roll back to'' None), w)
        | Inr previousTarget \<Rightarrow>
            bindIO (swallow (fsIO (\<lambda>f. rmForce f (currentSymlink cfg pid))))
              (\<lambda>_. bindIO (fsIO (\<lambda>f. symlink f previousTarget (currentSymlink cfg pid)))
              (\<lambda>_. repoint h cfg pid previousTarget)) w)"

subsection \<open>The release step of \<open>api/lib/deployEngine.js\<close>\<close>

definition releaseStep_v1 :: "host \<Rightarrow> config \<Rightarrow> ctx \<Rightarrow> ctx io" where
  \<comment> \<open>there \<open>repoPath\<close> is \<open>projectStore.repoDir(projectId)\<close> and the links end at
     \<open>project.deployPath\<close>\<close>
  "releaseStep_v1 h cfg c w =
     (let absOutput = absOutput_v1 (repoDir cfg (cPid c)) (str (outputDirOf cfg (cProject c)))
      in if \<not> cDry c \<and> \<not> pathExists (fs w) absOutput
         then (Inl (Error (''Build output directory not found: '' @ absOutput) None), w)
         else publish h cfg (c\<lparr> cReleasesDir := releasesDir cfg (cPid c) \<rparr>) absOutput
                (str (deployPath (cProject c))) w)"

section \<open>A host, a configuration and stored projects for closed instances\<close>

definition exampleHost :: host where
  \<comment> \<open>every child exits with code 0 and prints a commit hash; the working tree is not
     changed\<close>
  "exampleHost =
     \<lparr> hostCwd = ''/srv/app'', processEnv = Map.empty, crypto = standInLib,
       nowISO = ''2025-03-01T10:00:00.000Z'', nowMs = 1741, random1000 = 7,
       childOutcome = (\<lambda>n cmdline. Exited (Some 0) [(True, ''0123456789abcdef'' @ [CHR 0x0A])]),
       childEffect = (\<lambda>n cmdline f. f) \<rparr>"

definition exampleConfig :: config where
  "exampleConfig = loadConfig ''/srv/app'' (\<lambda>k. if k = ''MAX_QUEUE_SIZE'' then Val ''1'' else Undefined)"

definition exampleProject :: project where
  "exampleProject =
     emptyProject\<lparr> repo := Val ''https://github.com/o/r'', branch := Val ''main'',
                    buildCommand := Val ''npm run build'', buildOutput := Val ''build'',
                    deployPath := Val ''/var/www/p1'', runtime := Val ''static'',
                    lastDeploy := Val ''2025-02-01T09:00:00.000Z'', lastCommit := Val ''fedcba9876543210'' \<rparr>"

definition exampleWorld :: world where
  \<comment> \<open>one stored project, \<open>p1\<close>; an empty queue; no release yet\<close>
  "exampleWorld =
     \<lparr> configs = (\<lambda>pid. if pid = ''p1'' then ParsedObject exampleProject else Missing),
       deployments = \<lparr> depIndex = Map.empty, depFiles = Map.empty \<rparr>,
       fs = Map.empty, logs = Map.empty, spawned = [], copies = [], queue = [], active = 0 \<rparr>"

section \<open>Properties of the path functions\<close>

lemma split_on_not_Nil: "split_on d p \<noteq> []"
  by (induction p) (auto split: list.splits)

lemma split_on_no_sep: "s \<in> set (split_on d p) \<Longrightarrow> d \<notin> set s"
proof (induction p arbitrary: s)
  case Nil
  then show ?case by simp
next
  case (Cons c cs)
  obtain t ts where sp: "split_on d cs = t # ts"
    using split_on_not_Nil[of d cs] by (cases "split_on d cs") auto
  show ?case
  proof (cases "c = d")
    case True
    then show ?thesis using Cons by auto
  next
    case False
    then have "s = c # t \<or> s \<in> set ts" using Cons.prems sp by simp
    then show ?thesis using Cons.IH[of t] Cons.IH[of s] sp False by auto
  qed
qed

lemma normalizeSegs_clean:
  "\<forall>s\<in>set res. cleanSeg s \<Longrightarrow> \<forall>s\<in>set segs. CHR ''/'' \<notin> set s
   \<Longrightarrow> \<forall>s\<in>set (normalizeSegs False res segs). cleanSeg s"
proof (induction segs arbitrary: res)
  case Nil
  then show ?case by simp
next
  case (Cons seg segs)
  have tl: "\<forall>s\<in>set segs. CHR ''/'' \<notin> set s" using Cons.prems(2) by simp
  have bl: "\<forall>s\<in>set (butlast res). cleanSeg s"
    using Cons.prems(1) by (meson in_set_butlastD)
  have ext: "seg \<noteq> [] \<Longrightarrow> seg \<noteq> ''.'' \<Longrightarrow> seg \<noteq> ''..'' \<Longrightarrow> \<forall>s\<in>set (res @ [seg]). cleanSeg s"
    using Cons.prems by (auto simp: cleanSeg_def)
  consider "seg = [] \<or> seg = ''.''" | "seg = ''..''" "res \<noteq> [] \<and> last res \<noteq> ''..''"
    | "seg = ''..''" "\<not> (res \<noteq> [] \<and> last res \<noteq> ''..'')" | "seg \<noteq> []" "seg \<noteq> ''.''" "seg \<noteq> ''..''"
    by blast
  then show ?case
  proof cases
    case 1
    then show ?thesis using Cons.IH[OF Cons.prems(1) tl] by auto
  next
    case 2
    then show ?thesis using Cons.IH[OF bl tl] by simp
  next
    case 3
    then show ?thesis using Cons.IH[OF Cons.prems(1) tl] by auto
  next
    case 4
    then show ?thesis using Cons.IH[OF ext tl] by simp
  qed
qed
lemma split_on_plain: "d \<notin> set s \<Longrightarrow> split_on d s = [s]"
  by (induction s) auto

lemma split_on_append: "d \<notin> set s \<Longrightarrow> split_on d (s @ d # rest) = s # split_on d rest"
  by (induction s) auto

lemma normalizeSegs_id:
  "\<forall>s\<in>set segs. cleanSeg s \<Longrightarrow> normalizeSegs a res segs = res @ segs"
  by (induction segs arbitrary: res) (auto simp: cleanSeg_def)

lemma resolve_loop_abs:
  "isAbsolute cwd \<Longrightarrow> snd (resolve_loop (args @ [cwd]) acc)"
  by (induction args arbitrary: acc) (auto simp: isAbsolute_def)

lemma slashed_joinSlash: "CHR ''/'' # joinSlash (s # ss) = slashed (s # ss)"
  by (simp add: joinSlash_def slashed_def)

lemma path_resolve_form:
  assumes "isAbsolute cwd"
  shows "\<exists>segs. (\<forall>s\<in>set segs. cleanSeg s) \<and> path_resolve cwd args = CHR ''/'' # joinSlash segs"
proof -
  obtain rp ra where rl: "resolve_loop (rev args @ [cwd]) [] = (rp, ra)"
    by (cases "resolve_loop (rev args @ [cwd]) []")
  have ra using resolve_loop_abs[OF assms, of "rev args" "[]"] rl by simp
  let ?segs = "normalizeSegs False [] (split_on CHR ''/'' rp)"
  have "\<forall>s\<in>set ?segs. cleanSeg s"
    by (rule normalizeSegs_clean) (auto dest: split_on_no_sep)
  moreover have "path_resolve cwd args = CHR ''/'' # joinSlash ?segs"
    using rl \<open>ra\<close> by (simp add: path_resolve_def normalizeString_def)
  ultimately show ?thesis by blast
qed

lemma slashed_no_sep_split:
  "\<forall>s\<in>set segs. cleanSeg s \<Longrightarrow> split_on CHR ''/'' (slashed segs) = (if segs = [] then [[]] else [] # segs)"
proof (induction segs)
  case Nil
  then show ?case by (simp add: slashed_def)
next
  case (Cons s segs)
  have ns: "CHR ''/'' \<notin> set s" using Cons.prems by (simp add: cleanSeg_def)
  show ?case
  proof (cases "segs = []")
    case True
    then show ?thesis using ns by (simp add: slashed_def split_on_plain)
  next
    case False
    then obtain t ts where segs: "segs = t # ts" by (cases segs) auto
    have "slashed (s # segs) = CHR ''/'' # (s @ CHR ''/'' # (t @ slashed ts))"
      by (simp add: slashed_def segs)
    moreover have "split_on CHR ''/'' (slashed segs) = [] # segs"
      using Cons False by simp
    then have "split_on CHR ''/'' (t @ slashed ts) = segs"
      by (simp add: slashed_def segs)
    ultimately show ?thesis
      using ns by (simp add: split_on_append)
  qed
qed

lemma pathComponents_render:
  assumes "\<forall>s\<in>set segs. cleanSeg s"
  shows "pathComponents (CHR ''/'' # joinSlash segs) = segs"
proof (cases segs)
  case Nil
  then show ?thesis by (simp add: pathComponents_def joinSlash_def)
next
  case (Cons s ss)
  have "split_on CHR ''/'' (slashed segs) = [] # segs"
    using slashed_no_sep_split[OF assms] Cons by simp
  then show ?thesis
    using normalizeSegs_id[OF assms, of False "[]"]
    by (simp add: pathComponents_def Cons slashed_joinSlash[symmetric])
qed

lemma seg_prefix_step:
  "CHR ''/'' \<notin> set x \<Longrightarrow> CHR ''/'' \<notin> set y \<Longrightarrow> prefix (x @ CHR ''/'' # u) (y @ CHR ''/'' # v)
   \<Longrightarrow> x = y \<and> prefix u v"
proof (induction x arbitrary: y)
  case Nil
  then show ?case by (cases y) auto
next
  case (Cons a x)
  then show ?case by (cases y) auto
qed

lemma slashed_prefix:
  "\<forall>s\<in>set a. cleanSeg s \<Longrightarrow> \<forall>s\<in>set b. cleanSeg s
   \<Longrightarrow> prefix (slashed a @ ''/'') (slashed b @ ''/'') \<Longrightarrow> prefix a b"
proof (induction a arbitrary: b)
  case Nil
  then show ?case by simp
next
  case (Cons x a)
  show ?case
  proof (cases b)
    case Nil
    then show ?thesis using Cons.prems(3) by (simp add: slashed_def)
  next
    case (Cons y b')
    have nx: "CHR ''/'' \<notin> set x" and ny: "CHR ''/'' \<notin> set y"
      using Cons.prems Cons by (auto simp: cleanSeg_def)
    have sa: "\<exists>u. slashed a @ ''/'' = CHR ''/'' # u" by (cases a) (auto simp: slashed_def)
    have sb: "\<exists>v. slashed b' @ ''/'' = CHR ''/'' # v" by (cases b') (auto simp: slashed_def)
    from sa sb obtain u v where u: "slashed a @ ''/'' = CHR ''/'' # u" and v: "slashed b' @ ''/'' = CHR ''/'' # v"
      by blast
    have "prefix (x @ slashed a @ ''/'') (y @ slashed b' @ ''/'')"
      using Cons.prems(3) Cons by (simp add: slashed_def)
    then have "x = y \<and> prefix u v"
      using seg_prefix_step[OF nx ny, of u v] u v by simp
    then have "x = y" and "prefix (slashed a @ ''/'') (slashed b' @ ''/'')"
      using u v by auto
    then show ?thesis
      using Cons.IH[of b'] Cons.prems Cons by simp
  qed
qed

lemma render_prefix:
  assumes a: "\<forall>s\<in>set a. cleanSeg s" and b: "\<forall>s\<in>set b. cleanSeg s"
    and p: "prefix ((CHR ''/'' # joinSlash a) @ ''/'') (CHR ''/'' # joinSlash b)"
  shows "prefix a b"
proof (cases a)
  case Nil
  then show ?thesis by simp
next
  case ca: (Cons x a')
  show ?thesis
  proof (cases b)
    case Nil
    then show ?thesis using p ca by (simp add: joinSlash_def)
  next
    case cb: (Cons y b')
    have "prefix (slashed a @ ''/'') (slashed b)"
      using p ca cb slashed_joinSlash by simp
    then have "prefix (slashed a @ ''/'') (slashed b @ ''/'')"
      using prefix_prefix by blast
    then show ?thesis using slashed_prefix[OF a b] by simp
  qed
qed

lemma accepted_within:
  assumes cwd: "isAbsolute cwd"
    and chk: "path_resolve cwd rs = path_resolve cwd bs \<or> prefix (path_resolve cwd bs @ ''/'') (path_resolve cwd rs)"
  shows "isWithin (path_resolve cwd bs) (path_resolve cwd rs)"
proof -
  obtain a where a: "\<forall>s\<in>set a. cleanSeg s" "path_resolve cwd bs = CHR ''/'' # joinSlash a"
    using path_resolve_form[OF cwd] by blast
  obtain b where b: "\<forall>s\<in>set b. cleanSeg s" "path_resolve cwd rs = CHR ''/'' # joinSlash b"
    using path_resolve_form[OF cwd] by blast
  from chk have "prefix a b"
  proof
    assume "path_resolve cwd rs = path_resolve cwd bs"
    then have "pathComponents (CHR ''/'' # joinSlash a) = pathComponents (CHR ''/'' # joinSlash b)"
      using a b by simp
    then show ?thesis using pathComponents_render a b by simp
  next
    assume "prefix (path_resolve cwd bs @ ''/'') (path_resolve cwd rs)"
    then show ?thesis using render_prefix[OF a(1) b(1)] a b by simp
  qed
  then show ?thesis
    using a b pathComponents_render by (simp add: isWithin_def)
qed

section \<open>Path containment: the engine's checks and the validator's\<close>

text \<open>
  The engine's \<open>ensureDeployPathWithinRoot\<close> returns a path only when it is the resolved
  web root or a directory below it.
\<close>

theorem ensureDeployPathWithinRoot_sound:
  assumes cwd: "isAbsolute cwd"
    and ok: "ensureDeployPathWithinRoot cfg cwd dp = Inr r"
  shows "r = path_resolve cwd [dp] \<and> isWithin (path_resolve cwd [NGINX_ROOT cfg]) r"
proof -
  have r: "r = path_resolve cwd [dp]"
    using ok by (auto simp: ensureDeployPathWithinRoot_def Let_def split: if_splits)
  have "path_resolve cwd [dp] = path_resolve cwd [NGINX_ROOT cfg]
        \<or> prefix (path_resolve cwd [NGINX_ROOT cfg] @ ''/'') (path_resolve cwd [dp])"
    using ok by (auto simp: ensureDeployPathWithinRoot_def Let_def split: if_splits)
  then show ?thesis using accepted_within[OF cwd] r by simp
qed

theorem ensureDeployPathWithinRoot_sound_witness:
  "isAbsolute ''/srv/app''
   \<and> ensureDeployPathWithinRoot (loadConfig ''/srv/app'' (\<lambda>k. Undefined)) ''/srv/app'' ''/var/www/../www/p1/'' = Inr ''/var/www/p1''
   \<and> ''/var/www/p1'' = path_resolve ''/srv/app'' [''/var/www/../www/p1/'']
   \<and> isWithin (path_resolve ''/srv/app'' [NGINX_ROOT (loadConfig ''/srv/app'' (\<lambda>k. Undefined))]) ''/var/www/p1''"
proof -
  have a: "isAbsolute ''/srv/app''" by code_simp
  have b: "ensureDeployPathWithinRoot (loadConfig ''/srv/app'' (\<lambda>k. Undefined)) ''/srv/app'' ''/var/www/../www/p1/'' = Inr ''/var/www/p1''"
    by code_simp
  show ?thesis using ensureDeployPathWithinRoot_sound[OF a b] a b by blast
qed

text \<open>
  The engine's \<open>ensureWithinBase\<close>, which the release step of the engine with the owner
  check applies to the build output: a path it returns is the resolved base directory or
  lies below it.
\<close>

theorem ensureWithinBase_sound:
  assumes cwd: "isAbsolute cwd"
    and ok: "ensureWithinBase cwd baseDir candidate fieldName = Inr r"
  shows "isWithin (path_resolve cwd [baseDir]) r"
proof -
  let ?b = "path_resolve cwd [baseDir]"
  let ?c = "str (orS candidate (Val ''.''))"
  have r: "r = path_resolve cwd [?b, ?c]"
    using ok by (auto simp: ensureWithinBase_def Let_def split: if_splits)
  have chk: "path_resolve cwd [?b, ?c] = ?b \<or> prefix (?b @ ''/'') (path_resolve cwd [?b, ?c])"
    using ok by (auto simp: ensureWithinBase_def Let_def split: if_splits)
  show ?thesis using accepted_within[OF cwd, of "[?b, ?c]" "[baseDir]"] chk r by simp
qed

theorem ensureWithinBase_sound_witness:
  "isAbsolute ''/srv/app''
   \<and> ensureWithinBase ''/srv/app'' ''/var/deploy/projects/p1/repo'' (Val ''dist/../build'') ''Build output path''
       = Inr ''/var/deploy/projects/p1/repo/build''
   \<and> isWithin (path_resolve ''/srv/app'' [''/var/deploy/projects/p1/repo'']) ''/var/deploy/projects/p1/repo/build''"
proof -
  have a: "isAbsolute ''/srv/app''" by code_simp
  have b: "ensureWithinBase ''/srv/app'' ''/var/deploy/projects/p1/repo'' (Val ''dist/../build'') ''Build output path''
       = Inr ''/var/deploy/projects/p1/repo/build''"
    by code_simp
  show ?thesis using ensureWithinBase_sound[OF a b] a b by blast
qed

text \<open>
  Claim C9: a deploy path that the validator's \<open>resolveDeployPath\<close> accepts is the web
  root or a directory below it. The validator compares the text of the resolved path with
  the text of the root and leaves the separator out, so with the root \<open>/var/www\<close> it
  accepts the sibling directory \<open>/var/www-evil\<close>, which is not below the root and which
  the engine's \<open>ensureDeployPathWithinRoot\<close> refuses.
\<close>

theorem resolveDeployPath_accepts_sibling_of_root:
  "resolveDeployPath (loadConfig ''/srv/app'' (\<lambda>k. Undefined)) ''/srv/app'' (Some ''/var/www-evil'') (Val ''p1'')
     = Inr ''/var/www-evil''
   \<and> \<not> isWithin (NGINX_ROOT (loadConfig ''/srv/app'' (\<lambda>k. Undefined))) ''/var/www-evil''
   \<and> ensureDeployPathWithinRoot (loadConfig ''/srv/app'' (\<lambda>k. Undefined)) ''/srv/app'' ''/var/www-evil''
     = Inl ''Deploy path must be inside the nginx root''"
  by code_simp

section \<open>The redactor\<close>

lemma canonicalize_eq: "canonicalize c = CHR ''='' \<longleftrightarrow> c = CHR ''=''"
proof
  assume a: "canonicalize c = CHR ''=''"
  let ?n = "of_char c :: nat"
  show "c = CHR ''=''"
  proof (cases "(97 \<le> ?n \<and> ?n \<le> 122) \<or> (224 \<le> ?n \<and> ?n \<le> 254 \<and> ?n \<noteq> 247)")
    case True
    then have "char_of (?n - 32) = CHR ''=''" using a by (simp add: canonicalize_def Let_def)
    then have "(of_char (char_of (?n - 32) :: char) :: nat) = of_char CHR ''=''" by simp
    then have "(?n - 32) mod 256 = 61" by simp
    then show ?thesis using True by auto
  next
    case False
    then show ?thesis using a by (auto simp: canonicalize_def Let_def)
  qed
next
  assume "c = CHR ''=''"
  then show "canonicalize c = CHR ''=''" by (simp add: canonicalize_def)
qed






















section \<open>UTF-8 decoding inverts encoding\<close>

lemma div4096: "(n::nat) div 4096 = n div 64 div 64"
  by (simp add: div_mult2_eq)

lemma div262144: "(n::nat) div 262144 = n div 64 div 64 div 64"
  by (simp add: div_mult2_eq)

lemma split64: "(n::nat) div 64 * 64 + n mod 64 = n"
  by simp

lemma split3: "(n::nat) div 4096 * 4096 + (n div 64) mod 64 * 64 + n mod 64 = n"
proof -
  let ?q = "n div 64"
  define a where "a = ?q div 64"
  define b where "b = ?q mod 64"
  have "?q = a * 64 + b" unfolding a_def b_def by simp
  then have "a * 4096 + b * 64 = ?q * 64" by simp
  then have "?q div 64 * 4096 + ?q mod 64 * 64 = ?q * 64" unfolding a_def b_def .
  moreover have "n div 4096 = ?q div 64" by (rule div4096)
  moreover have "?q * 64 + n mod 64 = n" by (rule split64)
  ultimately show ?thesis by simp
qed

lemma split4:
  "(n::nat) div 262144 * 262144 + (n div 4096) mod 64 * 4096 + (n div 64) mod 64 * 64 + n mod 64 = n"
proof -
  let ?q = "n div 64"
  have "n div 262144 = ?q div 4096" by (simp add: div_mult2_eq)
  moreover have "n div 4096 = ?q div 64" by (simp add: div_mult2_eq)
  ultimately have "n div 262144 * 262144 + (n div 4096) mod 64 * 4096 + ?q mod 64 * 64
        = (?q div 4096 * 4096 + (?q div 64) mod 64 * 64 + ?q mod 64) * 64"
    by (simp add: add_mult_distrib)
  moreover have "?q div 4096 * 4096 + (?q div 64) mod 64 * 64 + ?q mod 64 = ?q" by (rule split3)
  moreover have "?q * 64 + n mod 64 = n" by (rule split64)
  ultimately show ?thesis by simp
qed

lemma low_half: "832 \<le> (q::nat) \<Longrightarrow> q \<le> 863 \<Longrightarrow> q mod 64 \<le> 31"
proof -
  assume a: "832 \<le> q" "q \<le> 863"
  have "q mod 64 = (q - 832 + 64 * 13) mod 64" using a by simp
  also have "\<dots> = (q - 832) mod 64" by (rule mod_mult_self2)
  finally show ?thesis using a by simp
qed

lemma second3_lo:
  assumes a: "0x800 \<le> cp" and lt: "cp < 0x10000"
  shows "secondLo (0xE0 + cp div 4096) \<le> 0x80 + (cp div 64) mod 64"
proof (cases "cp div 4096 = 0")
  case True
  have "cp div 64 div 64 = 0" using True by (simp only: div4096)
  then have "cp div 64 < 64" by simp
  moreover have "32 \<le> cp div 64" using a by simp
  ultimately show ?thesis by (simp add: secondLo_def)
next
  case False
  have "cp div 4096 < 16" using lt by simp
  then show ?thesis using False by (simp add: secondLo_def)
qed

lemma second3_hi:
  assumes "isScalar cp" "cp < 0x10000"
  shows "0x80 + (cp div 64) mod 64 \<le> secondHi (0xE0 + cp div 4096)"
proof (cases "cp div 4096 = 13")
  case True
  then have "53248 \<le> cp" by simp
  moreover have "cp < 55296" using True assms by (auto simp: isScalar_def)
  ultimately have "832 \<le> cp div 64" "cp div 64 \<le> 863" by simp_all
  then have "(cp div 64) mod 64 \<le> 31" by (rule low_half)
  then show ?thesis using True by (simp add: secondHi_def)
next
  case False
  have "cp div 4096 < 16" using assms(2) by simp
  moreover have "(cp div 64) mod 64 \<le> 63" by simp
  ultimately show ?thesis using False by (simp add: secondHi_def)
qed

lemma low_quarter: "256 \<le> (q::nat) \<Longrightarrow> q \<le> 271 \<Longrightarrow> q mod 64 \<le> 15"
proof -
  assume a: "256 \<le> q" "q \<le> 271"
  have "q mod 64 = (q - 256 + 64 * 4) mod 64" using a by simp
  also have "\<dots> = (q - 256) mod 64" by (rule mod_mult_self2)
  finally show ?thesis using a by simp
qed

lemma second4_lo:
  assumes a: "0x10000 \<le> cp"
  shows "secondLo (0xF0 + cp div 262144) \<le> 0x80 + (cp div 4096) mod 64"
proof (cases "cp div 262144 = 0")
  case True
  have "cp div 4096 div 64 = 0" using True by (simp add: div_mult2_eq)
  then have "cp div 4096 < 64" by simp
  moreover have "16 \<le> cp div 4096" using a by simp
  ultimately show ?thesis by (simp add: secondLo_def)
next
  case False
  then show ?thesis by (simp add: secondLo_def)
qed

lemma second4_hi:
  assumes "cp < 0x110000"
  shows "0x80 + (cp div 4096) mod 64 \<le> secondHi (0xF0 + cp div 262144)"
proof (cases "cp div 262144 = 4")
  case True
  then have "1048576 \<le> cp" by simp
  then have "256 \<le> cp div 4096" "cp div 4096 \<le> 271" using assms by simp_all
  then have "(cp div 4096) mod 64 \<le> 15" by (rule low_quarter)
  then show ?thesis using True by (simp add: secondHi_def)
next
  case False
  have "(cp div 4096) mod 64 \<le> 63" by simp
  then show ?thesis using False by (simp add: secondHi_def)
qed

lemma utf8enc1_bytes: "b \<in> set (utf8enc1 cp) \<Longrightarrow> b < 256"
  by (auto simp: utf8enc1_def isScalar_def split: if_splits)

lemma unat_of_nat_bytes: "\<forall>b\<in>set bs. b < 256 \<Longrightarrow> map (unat \<circ> (word_of_nat :: nat \<Rightarrow> byte)) bs = bs"
  by (induction bs) (auto simp: unat_of_nat)

lemma utf8step1: "b0 < 0x80 \<Longrightarrow> utf8step b0 rest = (b0, 0)"
  by (simp add: utf8step_def)

lemma utf8step2:
  "0xC2 \<le> b0 \<Longrightarrow> b0 \<le> 0xDF \<Longrightarrow> isCont b1
   \<Longrightarrow> utf8step b0 (b1 # rest) = ((b0 - 0xC0) * 64 + (b1 - 0x80), 1)"
  by (simp add: utf8step_def)

lemma utf8step3:
  "0xE0 \<le> b0 \<Longrightarrow> b0 \<le> 0xEF \<Longrightarrow> secondLo b0 \<le> b1 \<Longrightarrow> b1 \<le> secondHi b0 \<Longrightarrow> isCont b2
   \<Longrightarrow> utf8step b0 (b1 # b2 # rest) = ((b0 - 0xE0) * 4096 + (b1 - 0x80) * 64 + (b2 - 0x80), 2)"
  by (simp add: utf8step_def)

lemma utf8step4:
  "0xF0 \<le> b0 \<Longrightarrow> b0 \<le> 0xF4 \<Longrightarrow> secondLo b0 \<le> b1 \<Longrightarrow> b1 \<le> secondHi b0 \<Longrightarrow> isCont b2 \<Longrightarrow> isCont b3
   \<Longrightarrow> utf8step b0 (b1 # b2 # b3 # rest)
       = ((b0 - 0xF0) * 262144 + (b1 - 0x80) * 4096 + (b2 - 0x80) * 64 + (b3 - 0x80), 3)"
  by (simp add: utf8step_def)

lemma isCont_low6: "isCont (0x80 + n mod 64)"
  by (simp add: isCont_def)

lemma utf8dec_enc1:
  assumes "isScalar cp"
  shows "utf8dec (utf8enc1 cp @ rest) = cp # utf8dec rest"
proof -
  consider "cp < 0x80" | "0x80 \<le> cp" "cp < 0x800" | "0x800 \<le> cp" "cp < 0x10000" | "0x10000 \<le> cp"
    by linarith
  then show ?thesis
  proof cases
    case 1
    then show ?thesis by (simp add: utf8enc1_def utf8step1)
  next
    case 2
    have e: "utf8enc1 cp = [0xC0 + cp div 64, 0x80 + cp mod 64]"
      using 2 by (simp add: utf8enc1_def)
    have a: "0xC2 \<le> 0xC0 + cp div 64" "0xC0 + cp div 64 \<le> 0xDF" using 2 by simp_all
    have d: "(0xC0 + cp div 64 - 0xC0) * 64 + (0x80 + cp mod 64 - 0x80) = cp" by simp
    show ?thesis
      unfolding e using utf8step2[OF a isCont_low6, of cp rest] d by simp
  next
    case 3
    have e: "utf8enc1 cp = [0xE0 + cp div 4096, 0x80 + (cp div 64) mod 64, 0x80 + cp mod 64]"
      using 3 assms by (simp add: utf8enc1_def)
    have a: "0xE0 \<le> 0xE0 + cp div 4096" "0xE0 + cp div 4096 \<le> 0xEF" using 3 by simp_all
    have d: "(0xE0 + cp div 4096 - 0xE0) * 4096 + (0x80 + (cp div 64) mod 64 - 0x80) * 64
             + (0x80 + cp mod 64 - 0x80) = cp"
      using split3[of cp] by simp
    show ?thesis
      unfolding e
      using utf8step3[OF a second3_lo[OF 3] second3_hi[OF assms 3(2)] isCont_low6, of cp rest] d
      by simp
  next
    case 4
    have lt: "cp < 0x110000" using assms by (simp add: isScalar_def)
    have e: "utf8enc1 cp = [0xF0 + cp div 262144, 0x80 + (cp div 4096) mod 64,
                            0x80 + (cp div 64) mod 64, 0x80 + cp mod 64]"
      using 4 assms by (simp add: utf8enc1_def)
    have a: "0xF0 \<le> 0xF0 + cp div 262144" "0xF0 + cp div 262144 \<le> 0xF4" using lt by simp_all
    have d: "(0xF0 + cp div 262144 - 0xF0) * 262144 + (0x80 + (cp div 4096) mod 64 - 0x80) * 4096
             + (0x80 + (cp div 64) mod 64 - 0x80) * 64 + (0x80 + cp mod 64 - 0x80) = cp"
      using split4[of cp] by simp
    show ?thesis
      unfolding e
      using utf8step4[OF a second4_lo[OF 4] second4_hi[OF lt] isCont_low6 isCont_low6, of "cp div 64" cp rest] d
      by simp
  qed
qed

lemma utf8dec_concat:
  "list_all isScalar s \<Longrightarrow> utf8dec (concat (map utf8enc1 s)) = s"
  by (induction s) (simp_all add: utf8dec_enc1)

lemma utf8_roundtrip: "list_all isScalar s \<Longrightarrow> utf8decode (utf8encode s) = s"
proof -
  assume a: "list_all isScalar s"
  have "\<forall>b\<in>set (concat (map utf8enc1 s)). b < 256"
    by (auto dest: utf8enc1_bytes)
  then have "map (unat \<circ> (word_of_nat :: nat \<Rightarrow> byte)) (concat (map utf8enc1 s)) = concat (map utf8enc1 s)"
    by (rule unat_of_nat_bytes)
  then show ?thesis
    using a by (simp add: utf8decode_def utf8encode_def utf8dec_concat)
qed

section \<open>Base64 decoding inverts encoding\<close>

lemma b64value_b64char: "n < 64 \<Longrightarrow> b64value (b64char n) = Some n"
proof -
  assume a: "n < 64"
  consider "n < 26" | "26 \<le> n" "n < 52" | "52 \<le> n" "n < 62" | "n = 62" | "n = 63"
    using a by linarith
  then show ?thesis
    by cases (auto simp: b64value_def b64char_def Let_def)
qed

lemma b64value_pad: "b64value CHR ''='' = None"
  by (simp add: b64value_def)

lemma sextet_bounds:
  fixes a b c :: nat
  assumes "a < 256" "b < 256" "c < 256"
  shows "a div 4 < 64" "(a mod 4) * 16 + b div 16 < 64" "(b mod 16) * 4 + c div 64 < 64" "c mod 64 < 64"
    "(a mod 4) * 16 < 64" "(b mod 16) * 4 < 64"
  using assms by simp_all 

lemma b64_group:
  fixes a b c :: nat
  assumes "a < 256" "b < 256" "c < 256"
  shows "(a div 4) * 4 + ((a mod 4) * 16 + b div 16) div 16 = a"
    and "(((a mod 4) * 16 + b div 16) mod 16) * 16 + ((b mod 16) * 4 + c div 64) div 4 = b"
    and "(((b mod 16) * 4 + c div 64) mod 4) * 64 + c mod 64 = c"
    and "(a div 4) * 4 + ((a mod 4) * 16) div 16 = a"
    and "(((a mod 4) * 16 + b div 16) mod 16) * 16 + ((b mod 16) * 4) div 4 = b"
proof -
  have b16: "b div 16 < 16" using assms(2) by simp
  have c64: "c div 64 < 4" using assms(3) by simp
  have q1: "((a mod 4) * 16 + b div 16) div 16 = a mod 4" using b16 by simp
  have r1: "((a mod 4) * 16 + b div 16) mod 16 = b div 16" using b16 by simp
  have q2: "((b mod 16) * 4 + c div 64) div 4 = b mod 16" using c64 by simp
  have r2: "((b mod 16) * 4 + c div 64) mod 4 = c div 64" using c64 by simp
  show "(a div 4) * 4 + ((a mod 4) * 16 + b div 16) div 16 = a" unfolding q1 by simp
  show "(((a mod 4) * 16 + b div 16) mod 16) * 16 + ((b mod 16) * 4 + c div 64) div 4 = b"
    unfolding r1 q2 by simp
  show "(((b mod 16) * 4 + c div 64) mod 4) * 64 + c mod 64 = c" unfolding r2 by simp
  show "(a div 4) * 4 + ((a mod 4) * 16) div 16 = a" by simp
  show "(((a mod 4) * 16 + b div 16) mod 16) * 16 + ((b mod 16) * 4) div 4 = b" unfolding r1 by simp
qed

lemma b64dec_enc:
  "\<forall>x\<in>set xs. x < 256 \<Longrightarrow> b64dec (List.map_filter b64value (b64enc xs)) = xs"
proof (induction xs rule: b64enc.induct)
  case 1
  then show ?case by (simp add: map_filter_simps)
next
  case (2 a)
  then have a: "a < 256" by simp
  show ?case
    using sextet_bounds[OF a a a] b64_group[OF a a a]
    by (simp add: map_filter_simps b64value_b64char b64value_pad)
next
  case (3 a b)
  then have a: "a < 256" and b: "b < 256" by simp_all
  show ?case
    using sextet_bounds[OF a b b] b64_group[OF a b b]
    by (simp add: map_filter_simps b64value_b64char b64value_pad)
next
  case (4 a b c rest)
  then have a: "a < 256" and b: "b < 256" and c: "c < 256" by simp_all
  have ih: "b64dec (List.map_filter b64value (b64enc rest)) = rest" using 4 by simp
  show ?case
    using sextet_bounds[OF a b c] b64_group[OF a b c] ih
    by (simp add: map_filter_simps b64value_b64char)
qed

lemma base64_roundtrip: "base64decode (base64encode bs) = bs"
proof -
  have "unat x < 256" for x :: byte
    using unsigned_less[of x, where 'a=nat] by simp
  then have "\<forall>x\<in>set (map unat bs). x < 256" by simp
  then have "b64dec (List.map_filter b64value (b64enc (map unat bs))) = map unat bs"
    by (rule b64dec_enc)
  then show ?thesis by (simp add: base64decode_def base64encode_def comp_def)
qed

section \<open>The secrets codec: decryption inverts encryption\<close>

lemma xorStream_twice: "xorStream ks i (xorStream ks i bs) = bs"
  by (induction bs arbitrary: i) (simp_all add: xor.assoc)

lemma length_tagBytes: "length (tagBytes t) = 16"
  by (simp add: tagBytes_def)

lemma encryptSecret_payload:
  assumes "SECRETS_MASTER_KEY cfg \<noteq> []"
  shows "encryptSecret lib cfg iv s
         = Inr (base64encode (iv @ tagBytes (gcmTag lib (deriveKey lib cfg) iv
                    (xorStream (gcmKeystream lib (deriveKey lib cfg) iv) 0 (utf8encode s)))
                  @ xorStream (gcmKeystream lib (deriveKey lib cfg) iv) 0 (utf8encode s)))"
  using assms by (simp add: encryptSecret_def Let_def)

lemma decrypt_encrypt:
  assumes key: "SECRETS_MASTER_KEY cfg \<noteq> []" and iv: "length iv = 12" and s: "list_all isScalar s"
    and x: "encryptSecret lib cfg iv s = Inr x"
  shows "decryptSecret lib cfg x = Inr s"
proof -
  let ?k = "deriveKey lib cfg"
  let ?e = "xorStream (gcmKeystream lib ?k iv) 0 (utf8encode s)"
  let ?t = "tagBytes (gcmTag lib ?k iv ?e)"
  have x': "x = base64encode (iv @ ?t @ ?e)"
    using x encryptSecret_payload[OF key, of lib iv s] by simp
  have raw: "base64decode x = iv @ ?t @ ?e" unfolding x' by (rule base64_roundtrip)
  have t16: "length ?t = 16" by (rule length_tagBytes)
  have p1: "take 12 (iv @ ?t @ ?e) = iv" using iv by simp
  have p2: "take 16 (drop 12 (iv @ ?t @ ?e)) = ?t" using iv t16 by simp
  have p3: "drop 28 (iv @ ?t @ ?e) = ?e" using iv t16 by simp
  have ivne: "iv \<noteq> []" using iv by auto
  have v: "validTagLength (length ?t)" unfolding t16 by (simp add: validTagLength_def)
  have tk: "take (length ?t) (tagBytes (gcmTag lib ?k iv ?e)) = ?t" by simp
  have "decryptSecret lib cfg x
        = (if iv = [] then Inl (Error ''Invalid initialization vector'' None)
           else if \<not> validTagLength (length ?t)
           then Inl (Error ''Invalid authentication tag length'' None)
           else if ?t \<noteq> take (length ?t) (tagBytes (gcmTag lib ?k iv ?e))
           then Inl (Error ''Unsupported state or unable to authenticate data'' None)
           else Inr (utf8decode (xorStream (gcmKeystream lib ?k iv) 0 ?e)))"
    unfolding decryptSecret_def Let_def raw p1 p2 p3 using key by simp
  also have "\<dots> = Inr (utf8decode (xorStream (gcmKeystream lib ?k iv) 0 ?e))"
    using ivne v tk by (simp only: if_False if_True simp_thms)
  also have "\<dots> = Inr s"
    by (simp only: xorStream_twice utf8_roundtrip[OF s])
  finally show ?thesis .
qed


section \<open>The secrets codec: the two round trips\<close>

lemma standIn_facts:
  shows keyed: "SECRETS_MASTER_KEY keyedConfig \<noteq> []"
    and iv1_len: "length iv1 = 12"
    and iv2_len: "length iv2 = 12"
    and hi_scalar: "list_all isScalar [0x68, 0x69, 0x20AC]"
    and iv_differ: "iv2 \<noteq> iv1"
  by (simp_all add: keyedConfig_def loadConfig_def iv1_def iv2_def isScalar_def orS_def truthyS_def str_def)

lemma standIn_key: "deriveKey standInLib keyedConfig = [0x79, 0x33, 0x6B]"
  by (simp add: deriveKey_def standInLib_def keyedConfig_def loadConfig_def orS_def truthyS_def
      str_def utf8encode_def utf8enc1_def)

lemma standIn_utf8: "utf8encode [0x68, 0x69, 0x20AC] = [0x68, 0x69, 0xE2, 0x82, 0xAC]"
  by (simp add: utf8encode_def utf8enc1_def isScalar_def)

lemma standIn_blob1:
  "encryptSecret standInLib keyedConfig iv1 [0x68, 0x69, 0x20AC]
   = Inr ''AQIDBAUGBwgJCgsMAAAAAAAAAAAAAAAAAAAABRAQmPnQ''"
proof -
  have x: "xorStream (gcmKeystream standInLib [0x79, 0x33, 0x6B] iv1) 0 [0x68, 0x69, 0xE2, 0x82, 0xAC]
           = [0x10, 0x10, 0x98, 0xF9, 0xD0]"
    by (simp add: standInLib_def iv1_def)
  have t: "tagBytes (gcmTag standInLib [0x79, 0x33, 0x6B] iv1 [0x10, 0x10, 0x98, 0xF9, 0xD0])
           = [0, 0, 0, 0, 0, 0, 0, 0, 0, 0, 0, 0, 0, 0, 0, 5]"
    by (simp add: standInLib_def tagBytes_def upt_rec)
  have b: "base64encode (iv1 @ [0, 0, 0, 0, 0, 0, 0, 0, 0, 0, 0, 0, 0, 0, 0, 5] @ [0x10, 0x10, 0x98, 0xF9, 0xD0])
           = ''AQIDBAUGBwgJCgsMAAAAAAAAAAAAAAAAAAAABRAQmPnQ''"
    by code_simp
  show ?thesis
    unfolding encryptSecret_payload[OF keyed] standIn_key standIn_utf8 x t b ..
qed


text \<open>
  Claim C2: with the master secret configured, \<open>decryptSecret (encryptSecret s)\<close> is
  \<open>s\<close> for every well-formed text \<open>s\<close>, whatever the 12 random bytes of the IV.
\<close>

theorem decryptSecret_encryptSecret:
  assumes "SECRETS_MASTER_KEY cfg \<noteq> []" and "length iv = 12" and "list_all isScalar s"
  shows "\<exists>x. encryptSecret lib cfg iv s = Inr x \<and> decryptSecret lib cfg x = Inr s"
proof -
  obtain x where x: "encryptSecret lib cfg iv s = Inr x"
    using encryptSecret_payload[OF assms(1)] by blast
  then have "decryptSecret lib cfg x = Inr s"
    using decrypt_encrypt[OF assms] by blast
  then show ?thesis using x by blast
qed

theorem decryptSecret_encryptSecret_witness:
  "SECRETS_MASTER_KEY keyedConfig \<noteq> [] \<and> length iv1 = 12 \<and> list_all isScalar [0x68, 0x69, 0x20AC]
   \<and> encryptSecret standInLib keyedConfig iv1 [0x68, 0x69, 0x20AC]
       = Inr ''AQIDBAUGBwgJCgsMAAAAAAAAAAAAAAAAAAAABRAQmPnQ''
   \<and> decryptSecret standInLib keyedConfig ''AQIDBAUGBwgJCgsMAAAAAAAAAAAAAAAAAAAABRAQmPnQ''
       = Inr [0x68, 0x69, 0x20AC]"
proof -
  obtain x where "encryptSecret standInLib keyedConfig iv1 [0x68, 0x69, 0x20AC] = Inr x"
    and "decryptSecret standInLib keyedConfig x = Inr [0x68, 0x69, 0x20AC]"
    using decryptSecret_encryptSecret[OF keyed iv1_len hi_scalar, of standInLib] by blast
  then show ?thesis
    using standIn_blob1 keyed iv1_len hi_scalar by simp
qed




end
